theory Spec2Isabelle
  imports Complex_Main
begin

section \<open>Data model of geometry.cpp\<close>

text \<open>
  The C++ type \<open>double\<close> (and the typedef \<open>real\<close> of the position arrays) is modelled by
  the mathematical reals: every arithmetic operation is exact, \<open>sqrt\<close>, \<open>sin\<close> and
  \<open>acos\<close> are the real functions, and there is no rounding, infinity or NaN. A quotient
  with divisor zero is the total division of HOL, where the double arithmetic gives an
  infinity or a NaN: the theorems on the angle carry the hypothesis that excludes it, and
  the theorem on the gradient of the distance says where both of its sides are such a
  quotient. Every \<open>acos\<close> of the source is applied to a clamped cosine.

  A \<open>std::array<double, 3>\<close> and an \<open>rvec\<close> are three components; the loops
  \<open>for (i = 0; i < 3; i++)\<close> of the source are written out component by component.
  A raw pointer (\<open>const int* particle_ids\<close>, \<open>const rvec* particle_positions\<close>,
  \<open>std::array<double, 3>* derivatives\<close>) is the function from the offset to the cell it
  addresses.
\<close>

datatype vec3 = Vec3 (c0: real) (c1: real) (c2: real)

type_synonym ids = "nat \<Rightarrow> int"
type_synonym positions = "int \<Rightarrow> vec3"
type_synonym buffer = "nat \<Rightarrow> vec3"

text \<open>A local array \<open>int ids[2] = {a, b}\<close>.\<close>

definition ids2 :: "int \<Rightarrow> int \<Rightarrow> ids" where
  "ids2 a b = (\<lambda>k. if k = 0 then a else b)"

text \<open>
  Modelled from the spec: the header geometry.h, which defines \<open>DEGREES_PER_RADIAN\<close>, is not
  part of the sources; the spec gives the conversion factor as \<open>180/\<pi>\<close>.
  The constant \<open>VERYSMALL_F\<close> of the same header has no value in the spec; it is the
  parameter \<open>eps\<close> of every function that uses it. \<open>DIMENSION\<close> is 3.
\<close>

definition DEGREES_PER_RADIAN :: real where
  "DEGREES_PER_RADIAN = 180 / pi"

text \<open>
  The macro \<open>MAXFLOAT\<close>, the cutoff that \<open>calc_angle\<close> passes on, is the one of
  \<open>cmath\<close> where that header defines it (the largest \<open>float\<close> with glibc) and the
  fallback \<open>#define MAXFLOAT 1.0E10\<close> of lines 11 to 13 elsewhere. It is the parameter
  \<open>maxfloat\<close> of \<open>calc_angle\<close>.
\<close>

section \<open>Small helper functions\<close>

text \<open>One pass of the loop body of \<open>get_minimum_image\<close> on one axis.\<close>

definition wrap_component :: "real \<Rightarrow> real \<Rightarrow> real" where
  "wrap_component x h =
     (if x < 0 then x + 2 * h
      else if x \<ge> 2 * h then x - 2 * h
      else x)"

definition get_minimum_image :: "int \<Rightarrow> positions \<Rightarrow> vec3 \<Rightarrow> positions" where
  "get_minimum_image l frx simulation_box_half_lengths =
     frx(l := Vec3
       (wrap_component (c0 (frx l)) (c0 simulation_box_half_lengths))
       (wrap_component (c1 (frx l)) (c1 simulation_box_half_lengths))
       (wrap_component (c2 (frx l)) (c2 simulation_box_half_lengths)))"

text \<open>
  One pass of the loop body of \<open>subtract_min_image_vectors\<close>: \<open>xa\<close> and \<open>xb\<close> are the
  coordinates of the particles \<open>particle_ids[0]\<close> and \<open>particle_ids[1]\<close> on the axis,
  \<open>h\<close> the half-length of the box on it.
\<close>

definition min_image_component :: "real \<Rightarrow> real \<Rightarrow> real \<Rightarrow> real" where
  "min_image_component xa xb h =
     (let d = xb - xa in
      if d > h then d - 2 * h
      else if d < - h then d + 2 * h
      else d)"

definition subtract_min_image_vectors :: "ids \<Rightarrow> positions \<Rightarrow> vec3 \<Rightarrow> vec3" where
  "subtract_min_image_vectors particle_ids particle_positions simulation_box_half_lengths =
     Vec3
       (min_image_component (c0 (particle_positions (particle_ids 0)))
          (c0 (particle_positions (particle_ids 1))) (c0 simulation_box_half_lengths))
       (min_image_component (c1 (particle_positions (particle_ids 0)))
          (c1 (particle_positions (particle_ids 1))) (c1 simulation_box_half_lengths))
       (min_image_component (c2 (particle_positions (particle_ids 0)))
          (c2 (particle_positions (particle_ids 1))) (c2 simulation_box_half_lengths))"

definition cross_product :: "vec3 \<Rightarrow> vec3 \<Rightarrow> vec3" where
  "cross_product a b =
     Vec3 (c1 a * c2 b - c2 a * c1 b)
          (c2 a * c0 b - c0 a * c2 b)
          (c0 a * c1 b - c1 a * c0 b)"

definition dot_product :: "vec3 \<Rightarrow> vec3 \<Rightarrow> real" where
  "dot_product a b = ((0 + c0 a * c0 b) + c1 a * c1 b) + c2 a * c2 b"

definition check_sine :: "real \<Rightarrow> real \<Rightarrow> real" where
  "check_sine eps s =
     (let s1 = (if s < 0 \<and> s > - eps then - eps else s) in
      if s1 > 0 \<and> s1 < eps then eps else s1)"

definition check_cos :: "real \<Rightarrow> real \<Rightarrow> real" where
  "check_cos eps cos_theta =
     (let mx = 1 - eps; mn = - 1 + eps in
      if cos_theta > mx then mx
      else if cos_theta < mn then mn
      else cos_theta)"

section \<open>Functions with derivatives\<close>

text \<open>
  Each function returns its \<open>bool\<close>, the final content of \<open>param_val\<close> and the final
  content of the buffer \<open>derivatives\<close>. Where the source assigns \<open>param_val\<close> on every
  path the model takes no initial value for it.
\<close>

definition conditionally_calc_squared_distance_and_derivatives ::
  "ids \<Rightarrow> positions \<Rightarrow> vec3 \<Rightarrow> real \<Rightarrow> buffer \<Rightarrow> bool \<times> real \<times> buffer" where
  "conditionally_calc_squared_distance_and_derivatives particle_ids particle_positions
      simulation_box_half_lengths cutoff2 derivatives =
     (let displacement = subtract_min_image_vectors particle_ids particle_positions
            simulation_box_half_lengths;
          rr2 = ((0 + c0 displacement * c0 displacement)
                   + c1 displacement * c1 displacement)
                   + c2 displacement * c2 displacement
      in if rr2 > cutoff2 then (False, rr2, derivatives)
         else (True, rr2,
               derivatives(0 := Vec3 (2 * c0 displacement) (2 * c1 displacement)
                                     (2 * c2 displacement))))"

definition conditionally_calc_distance_and_derivatives ::
  "ids \<Rightarrow> positions \<Rightarrow> vec3 \<Rightarrow> real \<Rightarrow> buffer \<Rightarrow> bool \<times> real \<times> buffer" where
  "conditionally_calc_distance_and_derivatives particle_ids particle_positions
      simulation_box_half_lengths cutoff2 derivatives0 =
     (case conditionally_calc_squared_distance_and_derivatives particle_ids particle_positions
             simulation_box_half_lengths cutoff2 derivatives0 of
        (within_cutoff, param_val0, derivatives) \<Rightarrow>
          if within_cutoff then
            (let param_val = sqrt param_val0 in
             (True, param_val,
              derivatives(0 := Vec3 (0.5 * c0 (derivatives 0) / param_val)
                                    (0.5 * c1 (derivatives 0) / param_val)
                                    (0.5 * c2 (derivatives 0) / param_val))))
          else (False, param_val0, derivatives))"

text \<open>
  The locals of the in-range branch of the angle functions (lines 127 to 137):
  the two distances, the clamped cosine, the angle and its sine.
\<close>

record angle_locals =
  rr_20 :: real
  rr_21 :: real
  cos_theta :: real
  theta :: real
  sin_theta :: real

definition angle_locals_of :: "real \<Rightarrow> vec3 \<Rightarrow> vec3 \<Rightarrow> real \<Rightarrow> real \<Rightarrow> angle_locals" where
  "angle_locals_of eps dist_derivs_20 dist_derivs_21 rr2_20 rr2_21 =
     (let r20 = sqrt rr2_20;
          r21 = sqrt rr2_21;
          c = check_cos eps (dot_product dist_derivs_20 dist_derivs_21 / (4 * r20 * r21));
          t = arccos c
      in \<lparr>rr_20 = r20, rr_21 = r21, cos_theta = c, theta = t, sin_theta = sin t\<rparr>)"

text \<open>The loop that fills the two gradients of the end particles (lines 138 to 146).\<close>

definition angle_derivatives :: "angle_locals \<Rightarrow> vec3 \<Rightarrow> vec3 \<Rightarrow> buffer \<Rightarrow> buffer" where
  "angle_derivatives L dist_derivs_20 dist_derivs_21 derivatives =
     (let rr_01_1 = 1 / (rr_20 L * rr_21 L * sin_theta L);
          rr_00c = cos_theta L / (rr_20 L * rr_20 L * sin_theta L);
          rr_11c = cos_theta L / (rr_21 L * rr_21 L * sin_theta L)
      in derivatives
          (0 := Vec3 (0.5 * (c0 dist_derivs_21 * rr_01_1 - rr_00c * c0 dist_derivs_20))
                     (0.5 * (c1 dist_derivs_21 * rr_01_1 - rr_00c * c1 dist_derivs_20))
                     (0.5 * (c2 dist_derivs_21 * rr_01_1 - rr_00c * c2 dist_derivs_20)),
           1 := Vec3 (0.5 * (c0 dist_derivs_20 * rr_01_1 - rr_11c * c0 dist_derivs_21))
                     (0.5 * (c1 dist_derivs_20 * rr_01_1 - rr_11c * c1 dist_derivs_21))
                     (0.5 * (c2 dist_derivs_20 * rr_01_1 - rr_11c * c2 dist_derivs_21))))"

text \<open>
  \<open>scratch_20\<close> and \<open>scratch_21\<close> are the contents of the two arrays that
  \<open>new std::array<double, 3>[1]\<close> returns: they are not initialised, so they are
  parameters. \<open>param_val\<close> and \<open>derivatives\<close> are the caller's cells on entry.
\<close>

definition conditionally_calc_angle_and_derivatives ::
  "real \<Rightarrow> buffer \<Rightarrow> buffer \<Rightarrow> ids \<Rightarrow> positions \<Rightarrow> vec3 \<Rightarrow> real \<Rightarrow> real \<Rightarrow> buffer
     \<Rightarrow> bool \<times> real \<times> buffer" where
  "conditionally_calc_angle_and_derivatives eps scratch_20 scratch_21 particle_ids
      particle_positions simulation_box_half_lengths cutoff2 param_val derivatives =
     (let particle_ids_20 = ids2 (particle_ids 2) (particle_ids 0);
          particle_ids_21 = ids2 (particle_ids 2) (particle_ids 1)
      in case conditionally_calc_squared_distance_and_derivatives particle_ids_20
                particle_positions simulation_box_half_lengths cutoff2 scratch_20 of
           (within_cutoff_20, rr2_20, dist_derivs_20) \<Rightarrow>
         case conditionally_calc_squared_distance_and_derivatives particle_ids_21
                particle_positions simulation_box_half_lengths cutoff2 scratch_21 of
           (within_cutoff_21, rr2_21, dist_derivs_21) \<Rightarrow>
         if \<not> within_cutoff_20 \<or> \<not> within_cutoff_21 then (False, param_val, derivatives)
         else
           (let L = angle_locals_of eps (dist_derivs_20 0) (dist_derivs_21 0) rr2_20 rr2_21
            in (True, theta L * DEGREES_PER_RADIAN,
                angle_derivatives L (dist_derivs_20 0) (dist_derivs_21 0) derivatives)))"

text \<open>
  The locals shared by the two dihedral functions (lines 195 to 220 and 304 to 328):
  the three displacements, the two normals and the clamped cosine. The vector
  \<open>cross_bc\<close>, which both functions compute and never read, is left out.
\<close>

record dihedral_locals =
  disp03 :: vec3
  disp23 :: vec3
  disp12 :: vec3
  rrbc :: real
  pb :: vec3
  pc :: vec3
  pb2 :: real
  rpb1 :: real
  pc2 :: real
  rpc1 :: real
  dcos :: real

definition dihedral_locals_of :: "real \<Rightarrow> ids \<Rightarrow> positions \<Rightarrow> vec3 \<Rightarrow> dihedral_locals" where
  "dihedral_locals_of eps particle_ids particle_positions simulation_box_half_lengths =
     (let particle_ids_03 = ids2 (particle_ids 3) (particle_ids 0);
          particle_ids_23 = ids2 (particle_ids 3) (particle_ids 2);
          particle_ids_12 = ids2 (particle_ids 2) (particle_ids 1);
          d03 = subtract_min_image_vectors particle_ids_03 particle_positions
                  simulation_box_half_lengths;
          d23 = subtract_min_image_vectors particle_ids_23 particle_positions
                  simulation_box_half_lengths;
          d12 = subtract_min_image_vectors particle_ids_12 particle_positions
                  simulation_box_half_lengths;
          rbc = 1 / sqrt (dot_product d23 d23);
          b = cross_product d03 d23;
          c = cross_product d12 d23;
          b2 = dot_product b b;
          rb1 = 1 / sqrt b2;
          cc2 = dot_product c c;
          rc1 = 1 / sqrt cc2;
          pbpc = dot_product b c
      in \<lparr>disp03 = d03, disp23 = d23, disp12 = d12, rrbc = rbc, pb = b, pc = c,
          pb2 = b2, rpb1 = rb1, pc2 = cc2, rpc1 = rc1,
          dcos = check_cos eps (pbpc * rb1 * rc1)\<rparr>)"

definition conditionally_calc_dihedral_and_derivatives ::
  "real \<Rightarrow> ids \<Rightarrow> positions \<Rightarrow> vec3 \<Rightarrow> real \<Rightarrow> buffer \<Rightarrow> bool \<times> real \<times> buffer" where
  "conditionally_calc_dihedral_and_derivatives eps particle_ids particle_positions
      simulation_box_half_lengths cutoff2 derivatives =
     (let D = dihedral_locals_of eps particle_ids particle_positions
                simulation_box_half_lengths;
          th = arccos (dcos D);
          sign = - dot_product (pb D) (disp12 D) * rpb1 D * rrbc D;
          param_val = (if sign < 0 then - th else th);
          dot03_23 = dot_product (disp03 D) (disp23 D);
          dot12_23 = dot_product (disp12 D) (disp23 D);
          r23_2 = dot_product (disp23 D) (disp23 D);
          fcoef = dot03_23 / r23_2;
          hcoef = 1 + dot12_23 / r23_2;
          dtf = (\<lambda>x. x / (rrbc D * pb2 D));
          dth = (\<lambda>x. - x / (rrbc D * pc2 D))
      in (True, param_val,
          derivatives
            (0 := Vec3 (dtf (c0 (pb D))) (dtf (c1 (pb D))) (dtf (c2 (pb D))),
             1 := Vec3 (dth (c0 (pc D))) (dth (c1 (pc D))) (dth (c2 (pc D))),
             2 := Vec3 (- dtf (c0 (pb D)) * fcoef - dth (c0 (pc D)) * hcoef)
                       (- dtf (c1 (pb D)) * fcoef - dth (c1 (pc D)) * hcoef)
                       (- dtf (c2 (pb D)) * fcoef - dth (c2 (pc D)) * hcoef))))"

section \<open>Functions without derivatives\<close>

text \<open>
  \<open>calc_squared_distance\<close> calls \<open>subtract_min_image_vectors\<close> again in each of its three
  passes; the three calls are kept.
\<close>

definition calc_squared_distance :: "ids \<Rightarrow> positions \<Rightarrow> vec3 \<Rightarrow> real" where
  "calc_squared_distance particle_ids particle_positions simulation_box_half_lengths =
     (let rr2 = 0;
          displacement = subtract_min_image_vectors particle_ids particle_positions
                           simulation_box_half_lengths;
          rr2 = rr2 + c0 displacement * c0 displacement;
          displacement = subtract_min_image_vectors particle_ids particle_positions
                           simulation_box_half_lengths;
          rr2 = rr2 + c1 displacement * c1 displacement;
          displacement = subtract_min_image_vectors particle_ids particle_positions
                           simulation_box_half_lengths;
          rr2 = rr2 + c2 displacement * c2 displacement
      in rr2)"

definition calc_distance :: "ids \<Rightarrow> positions \<Rightarrow> vec3 \<Rightarrow> real" where
  "calc_distance particle_ids particle_positions simulation_box_half_lengths =
     sqrt (calc_squared_distance particle_ids particle_positions simulation_box_half_lengths)"

definition calc_angle ::
  "real \<Rightarrow> real \<Rightarrow> buffer \<Rightarrow> buffer \<Rightarrow> ids \<Rightarrow> positions \<Rightarrow> vec3 \<Rightarrow> real" where
  "calc_angle eps maxfloat scratch_20 scratch_21 particle_ids particle_positions
      simulation_box_half_lengths =
     (let particle_ids_20 = ids2 (particle_ids 2) (particle_ids 0);
          particle_ids_21 = ids2 (particle_ids 2) (particle_ids 1)
      in case conditionally_calc_squared_distance_and_derivatives particle_ids_20
                particle_positions simulation_box_half_lengths maxfloat scratch_20 of
           (within_cutoff_20, rr2_20, dist_derivs_20) \<Rightarrow>
         case conditionally_calc_squared_distance_and_derivatives particle_ids_21
                particle_positions simulation_box_half_lengths maxfloat scratch_21 of
           (within_cutoff_21, rr2_21, dist_derivs_21) \<Rightarrow>
         (let r20 = sqrt rr2_20;
              r21 = sqrt rr2_21;
              c = check_cos eps
                    (dot_product (dist_derivs_20 0) (dist_derivs_21 0) / (4 * r20 * r21));
              t = arccos c
          in t * DEGREES_PER_RADIAN))"

definition calc_dihedral :: "real \<Rightarrow> ids \<Rightarrow> positions \<Rightarrow> vec3 \<Rightarrow> real" where
  "calc_dihedral eps particle_ids particle_positions simulation_box_half_lengths =
     (let D = dihedral_locals_of eps particle_ids particle_positions
                simulation_box_half_lengths;
          th = arccos (dcos D) * DEGREES_PER_RADIAN;
          s = dot_product (pb D) (disp12 D) * rpb1 D * rrbc D
      in if s > 0 then - th else th)"

section \<open>Rigid motions\<close>

text \<open>
  The vocabulary of the invariance statements; none of it is in the source. A matrix is
  given by its three columns; a rotation has orthonormal columns and determinant 1.
  \<open>rigid_motion R t\<close> maps every position \<open>x\<close> to \<open>R x + t\<close>, \<open>translate t\<close> maps it
  to \<open>x + t\<close>. A pair is \<open>unwrapped\<close> when, on every axis, the raw difference of its two
  coordinates is within the half-length of the box, so that
  \<open>subtract_min_image_vectors\<close> takes neither of its two corrections.
\<close>

datatype mat3 = Mat3 (col0: vec3) (col1: vec3) (col2: vec3)

definition mat_vec :: "mat3 \<Rightarrow> vec3 \<Rightarrow> vec3" where
  "mat_vec R v =
     Vec3 (c0 (col0 R) * c0 v + c0 (col1 R) * c1 v + c0 (col2 R) * c2 v)
          (c1 (col0 R) * c0 v + c1 (col1 R) * c1 v + c1 (col2 R) * c2 v)
          (c2 (col0 R) * c0 v + c2 (col1 R) * c1 v + c2 (col2 R) * c2 v)"

definition is_rotation :: "mat3 \<Rightarrow> bool" where
  "is_rotation R \<longleftrightarrow>
     dot_product (col0 R) (col0 R) = 1 \<and> dot_product (col1 R) (col1 R) = 1
   \<and> dot_product (col2 R) (col2 R) = 1 \<and> dot_product (col0 R) (col1 R) = 0
   \<and> dot_product (col0 R) (col2 R) = 0 \<and> dot_product (col1 R) (col2 R) = 0
   \<and> dot_product (col0 R) (cross_product (col1 R) (col2 R)) = 1"

definition rigid_motion :: "mat3 \<Rightarrow> vec3 \<Rightarrow> positions \<Rightarrow> positions" where
  "rigid_motion R t ps =
     (\<lambda>i. Vec3 (c0 (mat_vec R (ps i)) + c0 t) (c1 (mat_vec R (ps i)) + c1 t)
               (c2 (mat_vec R (ps i)) + c2 t))"

definition translate :: "vec3 \<Rightarrow> positions \<Rightarrow> positions" where
  "translate t ps = (\<lambda>i. Vec3 (c0 (ps i) + c0 t) (c1 (ps i) + c1 t) (c2 (ps i) + c2 t))"

definition unwrapped :: "ids \<Rightarrow> positions \<Rightarrow> vec3 \<Rightarrow> bool" where
  "unwrapped particle_ids ps half \<longleftrightarrow>
     \<bar>c0 (ps (particle_ids 1)) - c0 (ps (particle_ids 0))\<bar> \<le> c0 half
   \<and> \<bar>c1 (ps (particle_ids 1)) - c1 (ps (particle_ids 0))\<bar> \<le> c1 half
   \<and> \<bar>c2 (ps (particle_ids 1)) - c2 (ps (particle_ids 0))\<bar> \<le> c2 half"

text \<open>The linear combination \<open>k a + l b\<close> of two vectors.\<close>

definition lin :: "real \<Rightarrow> vec3 \<Rightarrow> real \<Rightarrow> vec3 \<Rightarrow> vec3" where
  "lin k a l b = Vec3 (k * c0 a + l * c0 b) (k * c1 a + l * c1 b) (k * c2 a + l * c2 b)"

section \<open>Example configurations\<close>

text \<open>Two particles at \<open>(0,0,0)\<close> and \<open>(5,0,0)\<close>.\<close>

definition pos_0_5 :: positions where
  "pos_0_5 = (\<lambda>_. Vec3 0 0 0)(1 := Vec3 5 0 0)"

text \<open>Three particles \<open>(0,0,0)\<close>, \<open>(1,1,0)\<close> and the vertex \<open>(1,0,0)\<close>.\<close>

definition pos_right_angle :: positions where
  "pos_right_angle = (\<lambda>_. Vec3 0 0 0)(1 := Vec3 1 1 0, 2 := Vec3 1 0 0)"

text \<open>Four particles whose two planes are perpendicular.\<close>

definition pos_quarter_turn :: positions where
  "pos_quarter_turn = (\<lambda>_. Vec3 0 0 0)(0 := Vec3 0 1 0, 1 := Vec3 1 0 1, 2 := Vec3 1 0 0)"

text \<open>The rotation about the third axis with cosine \<open>3/5\<close> and sine \<open>4/5\<close>.\<close>

definition rot_z_34 :: mat3 where
  "rot_z_34 = Mat3 (Vec3 (3/5) (4/5) 0) (Vec3 (- 4/5) (3/5) 0) (Vec3 0 0 1)"

section \<open>Properties\<close>

subsection \<open>Evaluation of the helpers\<close>

lemma sqdist_unfold:
  "conditionally_calc_squared_distance_and_derivatives ids ps half cutoff2 derivs =
     (let d = subtract_min_image_vectors ids ps half;
          v = calc_squared_distance ids ps half
      in if v > cutoff2 then (False, v, derivs)
         else (True, v, derivs(0 := Vec3 (2 * c0 d) (2 * c1 d) (2 * c2 d))))"
  by (simp add: conditionally_calc_squared_distance_and_derivatives_def
      calc_squared_distance_def Let_def)

lemma calc_squared_distance_eq:
  "calc_squared_distance ids ps half =
     (c0 (subtract_min_image_vectors ids ps half))\<^sup>2
   + (c1 (subtract_min_image_vectors ids ps half))\<^sup>2
   + (c2 (subtract_min_image_vectors ids ps half))\<^sup>2"
  by (simp add: calc_squared_distance_def Let_def power2_eq_square)

lemma min_image_component_range:
  "\<bar>xb - xa\<bar> \<le> 2 * h \<Longrightarrow>
     - h \<le> min_image_component xa xb h \<and> min_image_component xa xb h \<le> h"
  by (auto simp add: min_image_component_def Let_def)

lemma smiv_0_5: "subtract_min_image_vectors (ids2 0 1) pos_0_5 (Vec3 3 3 3) = Vec3 (- 1) 0 0"
  by (simp add: subtract_min_image_vectors_def min_image_component_def ids2_def pos_0_5_def)

lemma csd_0_5: "calc_squared_distance (ids2 0 1) pos_0_5 (Vec3 3 3 3) = 1"
  by (simp add: calc_squared_distance_eq smiv_0_5)

lemma smiv_ra_20:
  "subtract_min_image_vectors (ids2 2 0) pos_right_angle (Vec3 10 10 10) = Vec3 (- 1) 0 0"
  by (simp add: subtract_min_image_vectors_def min_image_component_def ids2_def
        pos_right_angle_def)

lemma smiv_ra_21:
  "subtract_min_image_vectors (ids2 2 1) pos_right_angle (Vec3 10 10 10) = Vec3 0 1 0"
  by (simp add: subtract_min_image_vectors_def min_image_component_def ids2_def
        pos_right_angle_def)

lemma dihedral_locals_quarter:
  "dihedral_locals_of (1/1000000) int pos_quarter_turn (Vec3 10 10 10)
    = \<lparr>disp03 = Vec3 0 1 0, disp23 = Vec3 1 0 0, disp12 = Vec3 0 0 1, rrbc = 1,
       pb = Vec3 0 0 (- 1), pc = Vec3 0 1 0, pb2 = 1, rpb1 = 1, pc2 = 1, rpc1 = 1, dcos = 0\<rparr>"
  by (simp add: dihedral_locals_of_def subtract_min_image_vectors_def min_image_component_def
        ids2_def pos_quarter_turn_def cross_product_def dot_product_def check_cos_def Let_def)

lemma csd_nonneg: "0 \<le> calc_squared_distance ids ps half"
  by (simp add: calc_squared_distance_eq)

lemma sq_shape:
  "\<exists>w g. conditionally_calc_squared_distance_and_derivatives ids ps half cutoff2 derivs
          = (w, calc_squared_distance ids ps half, g)"
  by (cases "cutoff2 < calc_squared_distance ids ps half")
     (auto simp add: sqdist_unfold Let_def)

lemma csd_right_angle:
  "calc_squared_distance (ids2 2 0) pos_right_angle (Vec3 10 10 10) = 1"
  "calc_squared_distance (ids2 2 1) pos_right_angle (Vec3 10 10 10) = 1"
  by (simp_all add: calc_squared_distance_eq smiv_ra_20 smiv_ra_21)

lemma sq_right_angle:
  "conditionally_calc_squared_distance_and_derivatives (ids2 (int 2) (int 0)) pos_right_angle
      (Vec3 10 10 10) 4 (\<lambda>_. Vec3 7 7 7) = (True, 1, (\<lambda>_. Vec3 7 7 7)(0 := Vec3 (- 2) 0 0))"
  "conditionally_calc_squared_distance_and_derivatives (ids2 (int 2) (int 1)) pos_right_angle
      (Vec3 10 10 10) 4 (\<lambda>_. Vec3 8 8 8) = (True, 1, (\<lambda>_. Vec3 8 8 8)(0 := Vec3 0 2 0))"
  by (simp_all add: sqdist_unfold csd_right_angle smiv_ra_20 smiv_ra_21 Let_def)

subsection \<open>Units of the dihedral\<close>

text \<open>
  C1. The claim is that the dihedral written to \<open>param_val\<close> by
  \<open>conditionally_calc_dihedral_and_derivatives\<close> is in degrees, as the one of
  \<open>calc_dihedral\<close>. The source assigns \<open>theta\<close> or \<open>- theta\<close> without the factor
  \<open>DEGREES_PER_RADIAN\<close>: for four particles whose planes are perpendicular the function
  writes \<open>\<pi>/2\<close>, where \<open>calc_dihedral\<close> returns 90.
\<close>

theorem dihedral_derivative_variant_in_radians:
  "fst (snd (conditionally_calc_dihedral_and_derivatives (1/1000000) int pos_quarter_turn
              (Vec3 10 10 10) cutoff2 derivs)) = pi / 2
   \<and> calc_dihedral (1/1000000) int pos_quarter_turn (Vec3 10 10 10) = 90
   \<and> pi / 2 \<noteq> (90::real)"
proof -
  have "pi < 4" using pi_less_4 .
  then have "pi / 2 \<noteq> (90::real)" by simp
  then show ?thesis
    by (simp add: conditionally_calc_dihedral_and_derivatives_def calc_dihedral_def
          dihedral_locals_quarter Let_def dot_product_def DEGREES_PER_RADIAN_def)
qed

text \<open>
  C2. The two dihedral functions negate their angle under the same condition
  (\<open>sign < 0\<close> with \<open>sign = - s\<close> is \<open>s > 0\<close>), so on the same input the value of
  \<open>calc_dihedral\<close> is the value of the derivative variant times the conversion factor, and
  the two values have the same sign.
\<close>

theorem dihedral_variants_same_sign:
  "(let D = dihedral_locals_of eps ids ps half in
      (- dot_product (pb D) (disp12 D) * rpb1 D * rrbc D < 0)
        = (dot_product (pb D) (disp12 D) * rpb1 D * rrbc D > 0))
   \<and> calc_dihedral eps ids ps half
       = DEGREES_PER_RADIAN
          * fst (snd (conditionally_calc_dihedral_and_derivatives eps ids ps half cutoff2 derivs))
   \<and> sgn (calc_dihedral eps ids ps half)
       = sgn (fst (snd (conditionally_calc_dihedral_and_derivatives eps ids ps half cutoff2 derivs)))"
proof -
  have factor: "0 < DEGREES_PER_RADIAN" by (simp add: DEGREES_PER_RADIAN_def)
  have eq: "calc_dihedral eps ids ps half
       = DEGREES_PER_RADIAN
          * fst (snd (conditionally_calc_dihedral_and_derivatives eps ids ps half cutoff2 derivs))"
    by (simp add: calc_dihedral_def conditionally_calc_dihedral_and_derivatives_def Let_def)
  show ?thesis
    using factor by (simp add: eq Let_def sgn_mult)
qed

subsection \<open>The cutoff\<close>

text \<open>
  C3. \<open>conditionally_calc_squared_distance_and_derivatives\<close> always writes the squared
  length of the minimum-image displacement to \<open>param_val\<close>; it returns false exactly when
  that value is strictly greater than \<open>cutoff2\<close>, and then the derivative buffer is as it
  was; otherwise cell 0 of the buffer holds twice the displacement and it returns true.
\<close>

theorem squared_distance_cutoff_contract:
  "case conditionally_calc_squared_distance_and_derivatives ids ps half cutoff2 derivs of
     (within_cutoff, param_val, derivs') \<Rightarrow>
       param_val = (c0 (subtract_min_image_vectors ids ps half))\<^sup>2
                 + (c1 (subtract_min_image_vectors ids ps half))\<^sup>2
                 + (c2 (subtract_min_image_vectors ids ps half))\<^sup>2
     \<and> (\<not> within_cutoff \<longleftrightarrow> param_val > cutoff2)
     \<and> (\<not> within_cutoff \<longrightarrow> derivs' = derivs)
     \<and> (within_cutoff \<longrightarrow>
          derivs' = derivs(0 := Vec3 (2 * c0 (subtract_min_image_vectors ids ps half))
                                     (2 * c1 (subtract_min_image_vectors ids ps half))
                                     (2 * c2 (subtract_min_image_vectors ids ps half))))"
  by (simp add: sqdist_unfold calc_squared_distance_eq Let_def)

theorem squared_distance_cutoff_contract_witness:
  "conditionally_calc_squared_distance_and_derivatives (ids2 0 1) pos_0_5 (Vec3 3 3 3) 1
      (\<lambda>_. Vec3 7 7 7) = (True, 1, (\<lambda>_. Vec3 7 7 7)(0 := Vec3 (- 2) 0 0))
   \<and> conditionally_calc_squared_distance_and_derivatives (ids2 0 1) pos_0_5 (Vec3 3 3 3) (1/2)
      (\<lambda>_. Vec3 7 7 7) = (False, 1, (\<lambda>_. Vec3 7 7 7))"
  using squared_distance_cutoff_contract [where ids = "ids2 0 1" and ps = pos_0_5
            and half = "Vec3 3 3 3" and ?cutoff2.0 = 1 and derivs = "\<lambda>_. Vec3 7 7 7"]
    squared_distance_cutoff_contract [where ids = "ids2 0 1" and ps = pos_0_5
            and half = "Vec3 3 3 3" and ?cutoff2.0 = "1/2" and derivs = "\<lambda>_. Vec3 7 7 7"]
  by (auto simp add: smiv_0_5 split: prod.splits)

text \<open>
  C4. \<open>conditionally_calc_distance_and_derivatives\<close> returns the boolean of the
  squared-distance function on the same input; when it is true, its value is the square
  root of the squared-distance value and its gradient is the squared-distance gradient
  times \<open>1/(2 r)\<close>, which is the displacement divided by \<open>r\<close>. The other cells of the buffer
  are those the squared-distance function leaves. (At \<open>r = 0\<close> both sides of the two
  gradient equations are the same quotient by zero.)
\<close>

theorem distance_agrees_with_squared_distance:
  "case conditionally_calc_squared_distance_and_derivatives ids ps half cutoff2 derivs of
     (within_sq, val_sq, grad_sq) \<Rightarrow>
   case conditionally_calc_distance_and_derivatives ids ps half cutoff2 derivs of
     (within_d, val_d, grad_d) \<Rightarrow>
       within_d = within_sq
     \<and> (within_d \<longrightarrow>
          val_d = sqrt val_sq
        \<and> c0 (grad_d 0) = c0 (grad_sq 0) * (1 / (2 * val_d))
        \<and> c1 (grad_d 0) = c1 (grad_sq 0) * (1 / (2 * val_d))
        \<and> c2 (grad_d 0) = c2 (grad_sq 0) * (1 / (2 * val_d))
        \<and> grad_d 0 = Vec3 (c0 (subtract_min_image_vectors ids ps half) / val_d)
                           (c1 (subtract_min_image_vectors ids ps half) / val_d)
                           (c2 (subtract_min_image_vectors ids ps half) / val_d)
        \<and> (\<forall>k. k \<noteq> 0 \<longrightarrow> grad_d k = grad_sq k))"
  by (simp add: conditionally_calc_distance_and_derivatives_def sqdist_unfold Let_def)

theorem distance_agrees_with_squared_distance_witness:
  "conditionally_calc_squared_distance_and_derivatives (ids2 0 1) pos_0_5 (Vec3 3 3 3) 4
      (\<lambda>_. Vec3 7 7 7) = (True, 1, (\<lambda>_. Vec3 7 7 7)(0 := Vec3 (- 2) 0 0))
   \<and> conditionally_calc_distance_and_derivatives (ids2 0 1) pos_0_5 (Vec3 3 3 3) 4
      (\<lambda>_. Vec3 7 7 7) = (True, 1, (\<lambda>_. Vec3 7 7 7)(0 := Vec3 (- 1) 0 0))"
  using distance_agrees_with_squared_distance
          [where ids = "ids2 0 1" and ps = pos_0_5 and half = "Vec3 3 3 3" and ?cutoff2.0 = 4
             and derivs = "\<lambda>_. Vec3 7 7 7"]
  by (auto simp add: sqdist_unfold csd_0_5 smiv_0_5 Let_def fun_eq_iff split: prod.splits)

text \<open>
  C5. \<open>conditionally_calc_angle_and_derivatives\<close> returns false whenever the squared
  distance from the vertex (the third id) to the first or to the second particle exceeds
  \<open>cutoff2\<close>, and then \<open>param_val\<close> and the caller's derivative buffer are as they were on
  entry; it returns true only when both squared distances are within the cutoff.
\<close>

theorem angle_out_of_range:
  "case conditionally_calc_angle_and_derivatives eps scratch_20 scratch_21 ids ps half cutoff2
          param_val derivs of
     (within_cutoff, param_val', derivs') \<Rightarrow>
       ((calc_squared_distance (ids2 (ids 2) (ids 0)) ps half > cutoff2
          \<or> calc_squared_distance (ids2 (ids 2) (ids 1)) ps half > cutoff2)
         \<longrightarrow> \<not> within_cutoff \<and> param_val' = param_val \<and> derivs' = derivs)
     \<and> (within_cutoff \<longrightarrow>
           calc_squared_distance (ids2 (ids 2) (ids 0)) ps half \<le> cutoff2
         \<and> calc_squared_distance (ids2 (ids 2) (ids 1)) ps half \<le> cutoff2)"
  by (simp add: conditionally_calc_angle_and_derivatives_def sqdist_unfold Let_def)

theorem angle_out_of_range_witness:
  "fst (conditionally_calc_angle_and_derivatives (1/1000000) (\<lambda>_. Vec3 7 7 7) (\<lambda>_. Vec3 8 8 8)
          int pos_right_angle (Vec3 10 10 10) 4 5 (\<lambda>_. Vec3 9 9 9))
   \<and> calc_squared_distance (ids2 2 0) pos_right_angle (Vec3 10 10 10) \<le> 4
   \<and> calc_squared_distance (ids2 2 1) pos_right_angle (Vec3 10 10 10) \<le> 4
   \<and> calc_squared_distance (ids2 2 0) pos_right_angle (Vec3 10 10 10) > 1/2
   \<and> conditionally_calc_angle_and_derivatives (1/1000000) (\<lambda>_. Vec3 7 7 7) (\<lambda>_. Vec3 8 8 8)
          int pos_right_angle (Vec3 10 10 10) (1/2) 5 (\<lambda>_. Vec3 9 9 9)
        = (False, 5, \<lambda>_. Vec3 9 9 9)"
  using angle_out_of_range [where eps = "1/1000000" and ?scratch_20.0 = "\<lambda>_. Vec3 7 7 7"
          and ?scratch_21.0 = "\<lambda>_. Vec3 8 8 8" and ids = int and ps = pos_right_angle
          and half = "Vec3 10 10 10" and ?cutoff2.0 = 4 and param_val = 5
          and derivs = "\<lambda>_. Vec3 9 9 9"]
        angle_out_of_range [where eps = "1/1000000" and ?scratch_20.0 = "\<lambda>_. Vec3 7 7 7"
          and ?scratch_21.0 = "\<lambda>_. Vec3 8 8 8" and ids = int and ps = pos_right_angle
          and half = "Vec3 10 10 10" and ?cutoff2.0 = "1/2" and param_val = 5
          and derivs = "\<lambda>_. Vec3 9 9 9"]
  by (auto simp add: calc_squared_distance_eq smiv_ra_20 smiv_ra_21
        conditionally_calc_angle_and_derivatives_def sqdist_unfold Let_def split: prod.splits)

text \<open>
  C6. \<open>conditionally_calc_dihedral_and_derivatives\<close> returns true on every input, and the
  value of \<open>param_val\<close> and the cells 0, 1 and 2 of the derivative buffer on return are
  written by it: they are the same whatever \<open>cutoff2\<close> is and whatever the buffer held on
  entry.
\<close>

theorem dihedral_always_succeeds:
  "fst (conditionally_calc_dihedral_and_derivatives eps ids ps half cutoff2 derivs) = True
   \<and> fst (snd (conditionally_calc_dihedral_and_derivatives eps ids ps half cutoff2 derivs))
       = fst (snd (conditionally_calc_dihedral_and_derivatives eps ids ps half cutoff2' derivs'))
   \<and> snd (snd (conditionally_calc_dihedral_and_derivatives eps ids ps half cutoff2 derivs)) 0
       = snd (snd (conditionally_calc_dihedral_and_derivatives eps ids ps half cutoff2' derivs')) 0
   \<and> snd (snd (conditionally_calc_dihedral_and_derivatives eps ids ps half cutoff2 derivs)) 1
       = snd (snd (conditionally_calc_dihedral_and_derivatives eps ids ps half cutoff2' derivs')) 1
   \<and> snd (snd (conditionally_calc_dihedral_and_derivatives eps ids ps half cutoff2 derivs)) 2
       = snd (snd (conditionally_calc_dihedral_and_derivatives eps ids ps half cutoff2' derivs')) 2"
  by (simp add: conditionally_calc_dihedral_and_derivatives_def Let_def)

subsection \<open>Minimum image\<close>

text \<open>
  C7. On each axis \<open>subtract_min_image_vectors\<close> takes the difference of the coordinate of
  the second particle and that of the first, subtracts twice the half-length when the
  difference exceeds the half-length and adds it when the difference is below minus the
  half-length. When the difference is at most one box length in magnitude the result lies
  between minus the half-length and the half-length. Particles at 0 and 5 on an axis of
  half-length 3 give the displacement \<open>- 1\<close> and the distance 1.
\<close>

theorem min_image_displacement:
  "c0 (subtract_min_image_vectors ids ps half)
      = min_image_component (c0 (ps (ids 0))) (c0 (ps (ids 1))) (c0 half)
   \<and> c1 (subtract_min_image_vectors ids ps half)
      = min_image_component (c1 (ps (ids 0))) (c1 (ps (ids 1))) (c1 half)
   \<and> c2 (subtract_min_image_vectors ids ps half)
      = min_image_component (c2 (ps (ids 0))) (c2 (ps (ids 1))) (c2 half)
   \<and> min_image_component xa xb h
      = (if xb - xa > h then xb - xa - 2 * h
         else if xb - xa < - h then xb - xa + 2 * h
         else xb - xa)
   \<and> (\<bar>xb - xa\<bar> \<le> 2 * h \<longrightarrow>
        - h \<le> min_image_component xa xb h \<and> min_image_component xa xb h \<le> h)
   \<and> min_image_component 0 5 3 = - 1
   \<and> subtract_min_image_vectors (ids2 0 1) pos_0_5 (Vec3 3 3 3) = Vec3 (- 1) 0 0
   \<and> calc_distance (ids2 0 1) pos_0_5 (Vec3 3 3 3) = 1"
proof -
  have axes: "c0 (subtract_min_image_vectors ids ps half)
      = min_image_component (c0 (ps (ids 0))) (c0 (ps (ids 1))) (c0 half)
   \<and> c1 (subtract_min_image_vectors ids ps half)
      = min_image_component (c1 (ps (ids 0))) (c1 (ps (ids 1))) (c1 half)
   \<and> c2 (subtract_min_image_vectors ids ps half)
      = min_image_component (c2 (ps (ids 0))) (c2 (ps (ids 1))) (c2 half)"
    by (simp add: subtract_min_image_vectors_def)
  have body: "min_image_component xa xb h
      = (if xb - xa > h then xb - xa - 2 * h
         else if xb - xa < - h then xb - xa + 2 * h
         else xb - xa)"
    by (simp add: min_image_component_def)
  have bounds: "\<bar>xb - xa\<bar> \<le> 2 * h \<longrightarrow>
        - h \<le> min_image_component xa xb h \<and> min_image_component xa xb h \<le> h"
    using min_image_component_range [of xb xa h] by blast
  have one: "min_image_component 0 5 3 = - 1"
    by (simp add: min_image_component_def)
  have dist: "calc_distance (ids2 0 1) pos_0_5 (Vec3 3 3 3) = 1"
    by (simp add: calc_distance_def csd_0_5)
  from axes body bounds one smiv_0_5 dist show ?thesis
    by blast
qed

theorem min_image_displacement_witness:
  "\<bar>(5::real) - 0\<bar> \<le> 2 * 3 \<and> - 3 \<le> min_image_component 0 5 3
     \<and> min_image_component 0 5 3 \<le> 3"
  using min_image_displacement [where xa = 0 and xb = 5 and h = 3]
  by simp

subsection \<open>The clamp of the cosine\<close>

lemma check_cos_bounds:
  assumes "0 \<le> eps" "eps \<le> 1"
  shows "- 1 + eps \<le> check_cos eps x \<and> check_cos eps x \<le> 1 - eps"
  using assms by (auto simp add: check_cos_def Let_def)

lemma degrees_of_arccos:
  assumes "- 1 \<le> x" "x \<le> 1"
  shows "0 \<le> arccos x * DEGREES_PER_RADIAN \<and> arccos x * DEGREES_PER_RADIAN \<le> 180"
proof -
  have b: "0 \<le> arccos x" "arccos x \<le> pi"
    using assms by (simp_all add: arccos_lbound arccos_ubound)
  have "arccos x * (180 / pi) \<le> pi * (180 / pi)"
    using b by (intro mult_right_mono) simp_all
  then show ?thesis using b by (simp add: DEGREES_PER_RADIAN_def)
qed

lemma angle_of_clamped_cosine:
  assumes "0 \<le> eps" "eps \<le> 1"
  shows "0 \<le> arccos (check_cos eps x) * DEGREES_PER_RADIAN
       \<and> arccos (check_cos eps x) * DEGREES_PER_RADIAN \<le> 180"
proof -
  from check_cos_bounds [OF assms, of x]
  have "- 1 \<le> check_cos eps x" "check_cos eps x \<le> 1" using assms by linarith+
  then show ?thesis by (rule degrees_of_arccos)
qed

lemma sin_arccos_lower:
  assumes "0 < eps" "eps \<le> 1" "- 1 + eps \<le> x" "x \<le> 1 - eps"
  shows "sin (arccos (1 - eps)) \<le> sin (arccos x) \<and> eps \<le> sin (arccos x) \<and> 0 < sin (arccos x)"
proof -
  have ax: "\<bar>x\<bar> \<le> 1 - eps" using assms by (simp add: abs_le_iff)
  then have x1: "\<bar>x\<bar> \<le> 1" using assms by linarith
  have e1: "\<bar>1 - eps\<bar> \<le> 1" using assms by (simp add: abs_le_iff)
  have "\<bar>x\<bar> \<le> \<bar>1 - eps\<bar>" using ax assms by simp
  then have sq: "x\<^sup>2 \<le> (1 - eps)\<^sup>2" by (simp only: abs_le_square_iff)
  have s1: "sin (arccos x) = sqrt (1 - x\<^sup>2)" using x1 by (rule sin_arccos_abs)
  have s2: "sin (arccos (1 - eps)) = sqrt (1 - (1 - eps)\<^sup>2)" using e1 by (rule sin_arccos_abs)
  have lower: "sin (arccos (1 - eps)) \<le> sin (arccos x)"
    unfolding s1 s2 using sq by simp
  have "eps\<^sup>2 \<le> 1 - (1 - eps)\<^sup>2"
  proof -
    have "1 - (1 - eps)\<^sup>2 - eps\<^sup>2 = 2 * eps * (1 - eps)"
      by (simp add: power2_eq_square algebra_simps)
    moreover have "0 \<le> 2 * eps * (1 - eps)" using assms by simp
    ultimately show ?thesis by linarith
  qed
  then have "sqrt (eps\<^sup>2) \<le> sqrt (1 - (1 - eps)\<^sup>2)" by (rule real_sqrt_le_mono)
  then have "eps \<le> sin (arccos (1 - eps))" using assms s2 by simp
  with lower assms show ?thesis by linarith
qed

lemma check_sine_id: "0 < eps \<Longrightarrow> eps \<le> s \<Longrightarrow> check_sine eps s = s"
  by (simp add: check_sine_def Let_def)

lemma angle_locals_safe:
  assumes "0 < eps" "eps \<le> 1" "0 < rr2_20" "0 < rr2_21"
  shows "let L = angle_locals_of eps dd20 dd21 rr2_20 rr2_21 in
           - 1 + eps \<le> cos_theta L \<and> cos_theta L \<le> 1 - eps
         \<and> theta L = arccos (cos_theta L) \<and> 0 < theta L \<and> theta L < pi
         \<and> sin_theta L = sin (theta L) \<and> 0 < sin_theta L
         \<and> sin (arccos (1 - eps)) \<le> sin_theta L
         \<and> rr_20 L * rr_21 L * sin_theta L \<noteq> 0
         \<and> rr_20 L * rr_20 L * sin_theta L \<noteq> 0
         \<and> rr_21 L * rr_21 L * sin_theta L \<noteq> 0
         \<and> check_sine eps (sin_theta L) = sin_theta L"
proof -
  define x where "x = check_cos eps (dot_product dd20 dd21 / (4 * sqrt rr2_20 * sqrt rr2_21))"
  have e: "0 \<le> eps" using assms(1) by simp
  have b: "- 1 + eps \<le> x" "x \<le> 1 - eps"
    using check_cos_bounds [OF e assms(2)] by (simp_all add: x_def)
  have s: "sin (arccos (1 - eps)) \<le> sin (arccos x)" "eps \<le> sin (arccos x)" "0 < sin (arccos x)"
    using sin_arccos_lower [OF assms(1,2) b] by simp_all
  have t: "0 < arccos x" "arccos x < pi"
    using b assms(1) by (simp_all add: arccos_lt_bounded)
  have r: "0 < sqrt rr2_20" "0 < sqrt rr2_21" using assms(3,4) by simp_all
  have cs: "check_sine eps (sin (arccos x)) = sin (arccos x)"
    using assms(1) s(2) by (rule check_sine_id)
  show ?thesis
    using b s t r cs
    by (simp add: angle_locals_of_def Let_def x_def [symmetric])
qed

text \<open>
  C8. \<open>check_cos\<close> puts every cosine into \<open>[-1 + \<epsilon>, 1 - \<epsilon>]\<close>, where \<open>\<epsilon>\<close> is
  \<open>VERYSMALL_F\<close> (positive and at most 1), so for three particles with both vertex distances
  nonzero the angle that \<open>calc_angle\<close> returns, and the one that
  \<open>conditionally_calc_angle_and_derivatives\<close> writes when it returns true, lie in
  \<open>[0, 180]\<close> degrees. The bound on \<open>check_cos\<close> holds for every argument, also one that
  rounding has pushed beyond 1.
\<close>

theorem angle_in_degree_range:
  assumes "0 < eps" and "eps \<le> 1"
    and "calc_squared_distance (ids2 (ids 2) (ids 0)) ps half \<noteq> 0"
    and "calc_squared_distance (ids2 (ids 2) (ids 1)) ps half \<noteq> 0"
  shows "(\<forall>x. - 1 + eps \<le> check_cos eps x \<and> check_cos eps x \<le> 1 - eps)
       \<and> 0 \<le> calc_angle eps maxfloat scratch_20 scratch_21 ids ps half
       \<and> calc_angle eps maxfloat scratch_20 scratch_21 ids ps half \<le> 180
       \<and> (case conditionally_calc_angle_and_derivatives eps scratch_20 scratch_21 ids ps half
                  cutoff2 param_val derivs of
            (within_cutoff, param_val', derivs') \<Rightarrow>
               within_cutoff \<longrightarrow> 0 \<le> param_val' \<and> param_val' \<le> 180)"
proof -
  have e: "0 \<le> eps" using assms(1) by simp
  have clamp: "\<forall>x. - 1 + eps \<le> check_cos eps x \<and> check_cos eps x \<le> 1 - eps"
    using check_cos_bounds [OF e assms(2)] by blast
  have plain: "0 \<le> calc_angle eps maxfloat scratch_20 scratch_21 ids ps half
       \<and> calc_angle eps maxfloat scratch_20 scratch_21 ids ps half \<le> 180"
    using angle_of_clamped_cosine [OF e assms(2)]
    by (simp add: calc_angle_def Let_def split: prod.splits)
  have gated: "case conditionally_calc_angle_and_derivatives eps scratch_20 scratch_21 ids ps half
                  cutoff2 param_val derivs of
            (within_cutoff, param_val', derivs') \<Rightarrow>
               within_cutoff \<longrightarrow> 0 \<le> param_val' \<and> param_val' \<le> 180"
    using angle_of_clamped_cosine [OF e assms(2)]
    by (simp add: conditionally_calc_angle_and_derivatives_def angle_locals_of_def Let_def
          split: prod.splits)
  from clamp plain gated show ?thesis by blast
qed

theorem angle_in_degree_range_witness:
  "0 < (1/1000000::real) \<and> (1/1000000::real) \<le> 1
   \<and> calc_squared_distance (ids2 2 0) pos_right_angle (Vec3 10 10 10) \<noteq> 0
   \<and> calc_squared_distance (ids2 2 1) pos_right_angle (Vec3 10 10 10) \<noteq> 0
   \<and> 0 \<le> calc_angle (1/1000000) 10000000000 (\<lambda>_. Vec3 7 7 7) (\<lambda>_. Vec3 8 8 8) int
            pos_right_angle (Vec3 10 10 10)
   \<and> calc_angle (1/1000000) 10000000000 (\<lambda>_. Vec3 7 7 7) (\<lambda>_. Vec3 8 8 8) int
            pos_right_angle (Vec3 10 10 10) \<le> 180"
  using angle_in_degree_range [where eps = "1/1000000" and ids = int and ps = pos_right_angle
          and half = "Vec3 10 10 10" and ?scratch_20.0 = "\<lambda>_. Vec3 7 7 7"
          and ?scratch_21.0 = "\<lambda>_. Vec3 8 8 8" and ?cutoff2.0 = 4 and param_val = 5
          and derivs = "\<lambda>_. Vec3 9 9 9" and maxfloat = 10000000000]
  by (simp add: csd_right_angle)

text \<open>
  C10. In the angle derivative computation, for an input with both vertex distances
  nonzero, the clamped cosine is in \<open>[-1 + \<epsilon>, 1 - \<epsilon>]\<close>, the angle is strictly between 0
  and \<open>\<pi>\<close>, its sine is positive and at least \<open>sin (acos (1 - \<epsilon>))\<close>, none of the three
  divisors \<open>rr_20 * rr_21 * sin_theta\<close>, \<open>rr_20 * rr_20 * sin_theta\<close> and
  \<open>rr_21 * rr_21 * sin_theta\<close> is zero, and \<open>check_sine\<close> would leave the sine as it is.
\<close>

theorem angle_sine_never_zero:
  assumes "0 < eps" and "eps \<le> 1"
    and "calc_squared_distance (ids2 ((ids :: nat \<Rightarrow> int) 2) (ids 0)) ps half \<noteq> 0"
    and "calc_squared_distance (ids2 (ids 2) (ids 1)) ps half \<noteq> 0"
  shows
   "case conditionally_calc_squared_distance_and_derivatives (ids2 (ids 2) (ids 0)) ps half
           cutoff2 scratch_20 of
      (within_cutoff_20, rr2_20, dist_derivs_20) \<Rightarrow>
    case conditionally_calc_squared_distance_and_derivatives (ids2 (ids 2) (ids 1)) ps half
           cutoff2 scratch_21 of
      (within_cutoff_21, rr2_21, dist_derivs_21) \<Rightarrow>
    let L = angle_locals_of eps (dist_derivs_20 0) (dist_derivs_21 0) rr2_20 rr2_21 in
        - 1 + eps \<le> cos_theta L \<and> cos_theta L \<le> 1 - eps
      \<and> theta L = arccos (cos_theta L) \<and> 0 < theta L \<and> theta L < pi
      \<and> sin_theta L = sin (theta L) \<and> 0 < sin_theta L
      \<and> sin (arccos (1 - eps)) \<le> sin_theta L
      \<and> rr_20 L * rr_21 L * sin_theta L \<noteq> 0
      \<and> rr_20 L * rr_20 L * sin_theta L \<noteq> 0
      \<and> rr_21 L * rr_21 L * sin_theta L \<noteq> 0
      \<and> check_sine eps (sin_theta L) = sin_theta L"
proof -
  have p0: "0 < calc_squared_distance (ids2 (ids 2) (ids 0)) ps half"
    using assms(3) csd_nonneg [of "ids2 (ids 2) (ids 0)" ps half] by linarith
  have p1: "0 < calc_squared_distance (ids2 (ids 2) (ids 1)) ps half"
    using assms(4) csd_nonneg [of "ids2 (ids 2) (ids 1)" ps half] by linarith
  note safe = angle_locals_safe [OF assms(1,2) p0 p1]
  obtain w20 dd20 where a:
    "conditionally_calc_squared_distance_and_derivatives (ids2 (ids 2) (ids 0)) ps half
       cutoff2 scratch_20
     = (w20, calc_squared_distance (ids2 (ids 2) (ids 0)) ps half, dd20)"
    using sq_shape by blast
  obtain w21 dd21 where b:
    "conditionally_calc_squared_distance_and_derivatives (ids2 (ids 2) (ids 1)) ps half
       cutoff2 scratch_21
     = (w21, calc_squared_distance (ids2 (ids 2) (ids 1)) ps half, dd21)"
    using sq_shape by blast
  show ?thesis
    by (simp only: a b prod.case) (rule angle_locals_safe [OF assms(1,2) p0 p1])
qed

theorem angle_sine_never_zero_witness:
  "0 < (1/1000000::real) \<and> (1/1000000::real) \<le> 1
   \<and> calc_squared_distance (ids2 (int 2) (int 0)) pos_right_angle (Vec3 10 10 10) \<noteq> 0
   \<and> calc_squared_distance (ids2 (int 2) (int 1)) pos_right_angle (Vec3 10 10 10) \<noteq> 0
   \<and> 0 < sin_theta (angle_locals_of (1/1000000) (Vec3 (- 2) 0 0) (Vec3 0 2 0) 1 1)
   \<and> rr_20 (angle_locals_of (1/1000000) (Vec3 (- 2) 0 0) (Vec3 0 2 0) 1 1)
       * rr_21 (angle_locals_of (1/1000000) (Vec3 (- 2) 0 0) (Vec3 0 2 0) 1 1)
       * sin_theta (angle_locals_of (1/1000000) (Vec3 (- 2) 0 0) (Vec3 0 2 0) 1 1) \<noteq> 0"
proof -
  have h: "0 < (1/1000000::real)" "(1/1000000::real) \<le> 1"
    "calc_squared_distance (ids2 (int 2) (int 0)) pos_right_angle (Vec3 10 10 10) \<noteq> 0"
    "calc_squared_distance (ids2 (int 2) (int 1)) pos_right_angle (Vec3 10 10 10) \<noteq> 0"
    by (simp_all add: csd_right_angle)
  note t = angle_sine_never_zero [where ids = int and ?cutoff2.0 = 4
      and ?scratch_20.0 = "\<lambda>_. Vec3 7 7 7" and ?scratch_21.0 = "\<lambda>_. Vec3 8 8 8", OF h,
      unfolded sq_right_angle prod.case Let_def fun_upd_same]
  from t h show ?thesis by blast
qed

subsection \<open>Rigid motions\<close>

lemma dot_mat_vec:
  assumes "is_rotation R"
  shows "dot_product (mat_vec R a) (mat_vec R b) = dot_product a b"
proof -
  obtain u v w where R: "R = Mat3 u v w" by (cases R)
  obtain u0 u1 u2 where u: "u = Vec3 u0 u1 u2" by (cases u)
  obtain v0 v1 v2 where v: "v = Vec3 v0 v1 v2" by (cases v)
  obtain w0 w1 w2 where w: "w = Vec3 w0 w1 w2" by (cases w)
  obtain a0 a1 a2 where a: "a = Vec3 a0 a1 a2" by (cases a)
  obtain b0 b1 b2 where b: "b = Vec3 b0 b1 b2" by (cases b)
  have h: "u0 * u0 + u1 * u1 + u2 * u2 = 1" "v0 * v0 + v1 * v1 + v2 * v2 = 1"
    "w0 * w0 + w1 * w1 + w2 * w2 = 1" "u0 * v0 + u1 * v1 + u2 * v2 = 0"
    "u0 * w0 + u1 * w1 + u2 * w2 = 0" "v0 * w0 + v1 * w1 + v2 * w2 = 0"
    using assms by (simp_all add: is_rotation_def R u v w dot_product_def)
  have "dot_product (mat_vec R a) (mat_vec R b)
      = a0 * b0 * (u0 * u0 + u1 * u1 + u2 * u2)
      + a1 * b1 * (v0 * v0 + v1 * v1 + v2 * v2)
      + a2 * b2 * (w0 * w0 + w1 * w1 + w2 * w2)
      + (a0 * b1 + a1 * b0) * (u0 * v0 + u1 * v1 + u2 * v2)
      + (a0 * b2 + a2 * b0) * (u0 * w0 + u1 * w1 + u2 * w2)
      + (a1 * b2 + a2 * b1) * (v0 * w0 + v1 * w1 + v2 * w2)"
    by (simp add: R u v w a b dot_product_def mat_vec_def algebra_simps)
  also have "\<dots> = dot_product a b"
    by (simp add: h a b dot_product_def)
  finally show ?thesis .
qed

lemma sum_three_squares_zero:
  fixes x y z :: real
  assumes "x\<^sup>2 + y\<^sup>2 + z\<^sup>2 = 0"
  shows "x = 0" "y = 0" "z = 0"
proof -
  have "0 \<le> x\<^sup>2" "0 \<le> y\<^sup>2" "0 \<le> z\<^sup>2" by simp_all
  with assms have "x\<^sup>2 = 0" "y\<^sup>2 = 0" "z\<^sup>2 = 0" by linarith+
  then show "x = 0" "y = 0" "z = 0" by simp_all
qed

lemma frame_cross:
  assumes "is_rotation R"
  shows "cross_product (col1 R) (col2 R) = col0 R"
    and "cross_product (col2 R) (col0 R) = col1 R"
    and "cross_product (col0 R) (col1 R) = col2 R"
proof -
  obtain u v w where R: "R = Mat3 u v w" by (cases R)
  obtain u0 u1 u2 where u: "u = Vec3 u0 u1 u2" by (cases u)
  obtain v0 v1 v2 where v: "v = Vec3 v0 v1 v2" by (cases v)
  obtain w0 w1 w2 where w: "w = Vec3 w0 w1 w2" by (cases w)
  have h: "u0 * u0 + u1 * u1 + u2 * u2 = 1" "v0 * v0 + v1 * v1 + v2 * v2 = 1"
    "w0 * w0 + w1 * w1 + w2 * w2 = 1" "u0 * v0 + u1 * v1 + u2 * v2 = 0"
    "u0 * w0 + u1 * w1 + u2 * w2 = 0" "v0 * w0 + v1 * w1 + v2 * w2 = 0"
    "u0 * (v1 * w2 - v2 * w1) + u1 * (v2 * w0 - v0 * w2) + u2 * (v0 * w1 - v1 * w0) = 1"
    using assms by (simp_all add: is_rotation_def R u v w dot_product_def cross_product_def)
  have a: "(v1 * w2 - v2 * w1 - u0)\<^sup>2 + (v2 * w0 - v0 * w2 - u1)\<^sup>2 + (v0 * w1 - v1 * w0 - u2)\<^sup>2
     = (v0 * v0 + v1 * v1 + v2 * v2) * (w0 * w0 + w1 * w1 + w2 * w2)
       - (v0 * w0 + v1 * w1 + v2 * w2)\<^sup>2
       - 2 * (u0 * (v1 * w2 - v2 * w1) + u1 * (v2 * w0 - v0 * w2) + u2 * (v0 * w1 - v1 * w0))
       + (u0 * u0 + u1 * u1 + u2 * u2)"
    by (simp add: power2_eq_square algebra_simps)
  have "(v1 * w2 - v2 * w1 - u0)\<^sup>2 + (v2 * w0 - v0 * w2 - u1)\<^sup>2 + (v0 * w1 - v1 * w0 - u2)\<^sup>2 = 0"
    unfolding a by (simp add: h)
  from sum_three_squares_zero [OF this]
  have A: "v1 * w2 - v2 * w1 = u0" "v2 * w0 - v0 * w2 = u1" "v0 * w1 - v1 * w0 = u2"
    by simp_all
  show "cross_product (col1 R) (col2 R) = col0 R"
    using A by (simp add: R u v w cross_product_def)
  have b: "(w1 * u2 - w2 * u1 - v0)\<^sup>2 + (w2 * u0 - w0 * u2 - v1)\<^sup>2 + (w0 * u1 - w1 * u0 - v2)\<^sup>2
     = (w0 * w0 + w1 * w1 + w2 * w2) * (u0 * u0 + u1 * u1 + u2 * u2)
       - (u0 * w0 + u1 * w1 + u2 * w2)\<^sup>2
       - 2 * (u0 * (v1 * w2 - v2 * w1) + u1 * (v2 * w0 - v0 * w2) + u2 * (v0 * w1 - v1 * w0))
       + (v0 * v0 + v1 * v1 + v2 * v2)"
    by (simp add: power2_eq_square algebra_simps)
  have "(w1 * u2 - w2 * u1 - v0)\<^sup>2 + (w2 * u0 - w0 * u2 - v1)\<^sup>2 + (w0 * u1 - w1 * u0 - v2)\<^sup>2 = 0"
    unfolding b by (simp add: h)
  from sum_three_squares_zero [OF this]
  have B: "w1 * u2 - w2 * u1 = v0" "w2 * u0 - w0 * u2 = v1" "w0 * u1 - w1 * u0 = v2"
    by simp_all
  show "cross_product (col2 R) (col0 R) = col1 R"
    using B by (simp add: R u v w cross_product_def)
  have c: "(u1 * v2 - u2 * v1 - w0)\<^sup>2 + (u2 * v0 - u0 * v2 - w1)\<^sup>2 + (u0 * v1 - u1 * v0 - w2)\<^sup>2
     = (u0 * u0 + u1 * u1 + u2 * u2) * (v0 * v0 + v1 * v1 + v2 * v2)
       - (u0 * v0 + u1 * v1 + u2 * v2)\<^sup>2
       - 2 * (u0 * (v1 * w2 - v2 * w1) + u1 * (v2 * w0 - v0 * w2) + u2 * (v0 * w1 - v1 * w0))
       + (w0 * w0 + w1 * w1 + w2 * w2)"
    by (simp add: power2_eq_square algebra_simps)
  have "(u1 * v2 - u2 * v1 - w0)\<^sup>2 + (u2 * v0 - u0 * v2 - w1)\<^sup>2 + (u0 * v1 - u1 * v0 - w2)\<^sup>2 = 0"
    unfolding c by (simp add: h)
  from sum_three_squares_zero [OF this]
  have C: "u1 * v2 - u2 * v1 = w0" "u2 * v0 - u0 * v2 = w1" "u0 * v1 - u1 * v0 = w2"
    by simp_all
  show "cross_product (col0 R) (col1 R) = col2 R"
    using C by (simp add: R u v w cross_product_def)
qed

lemma mat_vec_lin: "mat_vec R (lin k a l b) = lin k (mat_vec R a) l (mat_vec R b)"
  by (simp add: mat_vec_def lin_def algebra_simps)

lemma cross_mat_vec:
  assumes "is_rotation R"
  shows "cross_product (mat_vec R a) (mat_vec R b) = mat_vec R (cross_product a b)"
proof -
  obtain u v w where R: "R = Mat3 u v w" by (cases R)
  obtain u0 u1 u2 where u: "u = Vec3 u0 u1 u2" by (cases u)
  obtain v0 v1 v2 where v: "v = Vec3 v0 v1 v2" by (cases v)
  obtain w0 w1 w2 where w: "w = Vec3 w0 w1 w2" by (cases w)
  obtain a0 a1 a2 where a: "a = Vec3 a0 a1 a2" by (cases a)
  obtain b0 b1 b2 where b: "b = Vec3 b0 b1 b2" by (cases b)
  have A: "v1 * w2 - v2 * w1 = u0" "v2 * w0 - v0 * w2 = u1" "v0 * w1 - v1 * w0 = u2"
    using frame_cross(1) [OF assms] by (simp_all add: R u v w cross_product_def)
  have B: "w1 * u2 - w2 * u1 = v0" "w2 * u0 - w0 * u2 = v1" "w0 * u1 - w1 * u0 = v2"
    using frame_cross(2) [OF assms] by (simp_all add: R u v w cross_product_def)
  have C: "u1 * v2 - u2 * v1 = w0" "u2 * v0 - u0 * v2 = w1" "u0 * v1 - u1 * v0 = w2"
    using frame_cross(3) [OF assms] by (simp_all add: R u v w cross_product_def)
  have x: "(u1 * a0 + v1 * a1 + w1 * a2) * (u2 * b0 + v2 * b1 + w2 * b2)
         - (u2 * a0 + v2 * a1 + w2 * a2) * (u1 * b0 + v1 * b1 + w1 * b2)
      = (v1 * w2 - v2 * w1) * (a1 * b2 - a2 * b1)
      + (w1 * u2 - w2 * u1) * (a2 * b0 - a0 * b2)
      + (u1 * v2 - u2 * v1) * (a0 * b1 - a1 * b0)"
    by (simp add: algebra_simps)
  have y: "(u2 * a0 + v2 * a1 + w2 * a2) * (u0 * b0 + v0 * b1 + w0 * b2)
         - (u0 * a0 + v0 * a1 + w0 * a2) * (u2 * b0 + v2 * b1 + w2 * b2)
      = (v2 * w0 - v0 * w2) * (a1 * b2 - a2 * b1)
      + (w2 * u0 - w0 * u2) * (a2 * b0 - a0 * b2)
      + (u2 * v0 - u0 * v2) * (a0 * b1 - a1 * b0)"
    by (simp add: algebra_simps)
  have z: "(u0 * a0 + v0 * a1 + w0 * a2) * (u1 * b0 + v1 * b1 + w1 * b2)
         - (u1 * a0 + v1 * a1 + w1 * a2) * (u0 * b0 + v0 * b1 + w0 * b2)
      = (v0 * w1 - v1 * w0) * (a1 * b2 - a2 * b1)
      + (w0 * u1 - w1 * u0) * (a2 * b0 - a0 * b2)
      + (u0 * v1 - u1 * v0) * (a0 * b1 - a1 * b0)"
    by (simp add: algebra_simps)
  show ?thesis
    unfolding R u v w a b cross_product_def mat_vec_def vec3.sel mat3.sel vec3.inject
    unfolding x y z A B C by simp
qed

lemma smiv_translate:
  "subtract_min_image_vectors ids (translate t ps) half = subtract_min_image_vectors ids ps half"
  by (simp add: subtract_min_image_vectors_def translate_def min_image_component_def)

lemma min_image_component_unwrapped:
  "\<bar>xb - xa\<bar> \<le> h \<Longrightarrow> min_image_component xa xb h = xb - xa"
  by (auto simp add: min_image_component_def Let_def)

lemma smiv_unwrapped:
  assumes "unwrapped ids ps half"
  shows "subtract_min_image_vectors ids ps half
     = Vec3 (c0 (ps (ids 1)) - c0 (ps (ids 0))) (c1 (ps (ids 1)) - c1 (ps (ids 0)))
            (c2 (ps (ids 1)) - c2 (ps (ids 0)))"
  using assms
  by (simp add: unwrapped_def subtract_min_image_vectors_def min_image_component_unwrapped)

lemma raw_difference_rigid_motion:
  "Vec3 (c0 (rigid_motion R t ps j) - c0 (rigid_motion R t ps i))
        (c1 (rigid_motion R t ps j) - c1 (rigid_motion R t ps i))
        (c2 (rigid_motion R t ps j) - c2 (rigid_motion R t ps i))
   = mat_vec R (Vec3 (c0 (ps j) - c0 (ps i)) (c1 (ps j) - c1 (ps i)) (c2 (ps j) - c2 (ps i)))"
  by (simp add: rigid_motion_def mat_vec_def algebra_simps)

lemma smiv_rigid_motion:
  assumes "unwrapped ids ps half" "unwrapped ids (rigid_motion R t ps) half"
  shows "subtract_min_image_vectors ids (rigid_motion R t ps) half
     = mat_vec R (subtract_min_image_vectors ids ps half)"
  by (simp only: smiv_unwrapped [OF assms(1)] smiv_unwrapped [OF assms(2)]
        raw_difference_rigid_motion)

lemma csd_dot:
  "calc_squared_distance ids ps half
     = dot_product (subtract_min_image_vectors ids ps half) (subtract_min_image_vectors ids ps half)"
  by (simp add: calc_squared_distance_def dot_product_def Let_def)

lemma csd_moved:
  assumes "is_rotation R"
    and "subtract_min_image_vectors ids ps' half = mat_vec R (subtract_min_image_vectors ids ps half)"
  shows "calc_squared_distance ids ps' half = calc_squared_distance ids ps half"
  by (simp add: csd_dot assms(2) dot_mat_vec [OF assms(1)])

lemma twice_mat_vec:
  "Vec3 (2 * c0 (mat_vec R d)) (2 * c1 (mat_vec R d)) (2 * c2 (mat_vec R d))
     = mat_vec R (Vec3 (2 * c0 d) (2 * c1 d) (2 * c2 d))"
  by (simp add: mat_vec_def algebra_simps)

lemma quotient_mat_vec:
  "Vec3 (c0 (mat_vec R d) / r) (c1 (mat_vec R d) / r) (c2 (mat_vec R d) / r)
     = mat_vec R (Vec3 (c0 d / r) (c1 d / r) (c2 d / r))"
  by (simp add: mat_vec_def add_divide_distrib)

lemma dist_moved:
  assumes "is_rotation R"
    and "subtract_min_image_vectors ids ps' half = mat_vec R (subtract_min_image_vectors ids ps half)"
  shows "conditionally_calc_distance_and_derivatives ids ps' half cutoff2 derivs
     = (case conditionally_calc_distance_and_derivatives ids ps half cutoff2 derivs of
          (w, v, g) \<Rightarrow> (w, v, if w then g(0 := mat_vec R (g 0)) else g))"
  by (simp add: conditionally_calc_distance_and_derivatives_def sqdist_unfold
        csd_moved [OF assms] assms(2) quotient_mat_vec Let_def)

lemma angle_locals_moved:
  assumes "is_rotation R"
  shows "angle_locals_of eps (mat_vec R a) (mat_vec R b) x y = angle_locals_of eps a b x y"
  by (simp add: angle_locals_of_def dot_mat_vec [OF assms])

lemma end_gradient_mat_vec:
  "Vec3 (0.5 * (c0 (mat_vec R b) * p - q * c0 (mat_vec R a)))
        (0.5 * (c1 (mat_vec R b) * p - q * c1 (mat_vec R a)))
        (0.5 * (c2 (mat_vec R b) * p - q * c2 (mat_vec R a)))
   = mat_vec R (Vec3 (0.5 * (c0 b * p - q * c0 a)) (0.5 * (c1 b * p - q * c1 a))
                     (0.5 * (c2 b * p - q * c2 a)))"
  by (simp add: mat_vec_def algebra_simps)

lemma angle_derivatives_moved:
  "angle_derivatives L (mat_vec R a) (mat_vec R b) g
     = g(0 := mat_vec R (angle_derivatives L a b g 0),
         1 := mat_vec R (angle_derivatives L a b g 1))"
  unfolding angle_derivatives_def Let_def
  by (simp only: end_gradient_mat_vec fun_upd_same fun_upd_other)

lemma angle_derivatives_overwrite:
  "(angle_derivatives L a b g)(0 := x, 1 := y) = g(0 := x, 1 := y)"
  by (simp add: angle_derivatives_def Let_def fun_eq_iff)

lemma angle_scratch_free:
  "conditionally_calc_angle_and_derivatives eps scratch_20' scratch_21' ids ps half cutoff2
       param_val derivs
     = conditionally_calc_angle_and_derivatives eps scratch_20 scratch_21 ids ps half cutoff2
       param_val derivs"
  by (simp add: conditionally_calc_angle_and_derivatives_def sqdist_unfold Let_def)

lemma calc_angle_scratch_free:
  assumes "calc_squared_distance (ids2 (ids 2) (ids 0)) ps half \<le> maxfloat"
    and "calc_squared_distance (ids2 (ids 2) (ids 1)) ps half \<le> maxfloat"
  shows "calc_angle eps maxfloat scratch_20' scratch_21' ids ps half
       = calc_angle eps maxfloat scratch_20 scratch_21 ids ps half"
  using assms by (simp add: calc_angle_def sqdist_unfold Let_def del: One_nat_def)

lemma angle_moved:
  assumes "is_rotation R"
    and "subtract_min_image_vectors (ids2 (ids 2) (ids 0)) ps' half
           = mat_vec R (subtract_min_image_vectors (ids2 (ids 2) (ids 0)) ps half)"
    and "subtract_min_image_vectors (ids2 (ids 2) (ids 1)) ps' half
           = mat_vec R (subtract_min_image_vectors (ids2 (ids 2) (ids 1)) ps half)"
  shows "conditionally_calc_angle_and_derivatives eps scratch_20' scratch_21' ids ps' half
            cutoff2 param_val derivs
     = (case conditionally_calc_angle_and_derivatives eps scratch_20 scratch_21 ids ps half
               cutoff2 param_val derivs of
          (w, v, g) \<Rightarrow> (w, v, if w then g(0 := mat_vec R (g 0), 1 := mat_vec R (g 1)) else g))"
  by (simp add: conditionally_calc_angle_and_derivatives_def sqdist_unfold
        csd_moved [OF assms(1,2)] csd_moved [OF assms(1,3)] assms(2,3) twice_mat_vec
        angle_locals_moved [OF assms(1)] angle_derivatives_moved angle_derivatives_overwrite
        Let_def del: One_nat_def)

lemma calc_angle_moved:
  assumes "is_rotation R"
    and "subtract_min_image_vectors (ids2 (ids 2) (ids 0)) ps' half
           = mat_vec R (subtract_min_image_vectors (ids2 (ids 2) (ids 0)) ps half)"
    and "subtract_min_image_vectors (ids2 (ids 2) (ids 1)) ps' half
           = mat_vec R (subtract_min_image_vectors (ids2 (ids 2) (ids 1)) ps half)"
    and "calc_squared_distance (ids2 (ids 2) (ids 0)) ps half \<le> maxfloat"
    and "calc_squared_distance (ids2 (ids 2) (ids 1)) ps half \<le> maxfloat"
  shows "calc_angle eps maxfloat scratch_20' scratch_21' ids ps' half
       = calc_angle eps maxfloat scratch_20 scratch_21 ids ps half"
  using assms(4,5)
  by (simp add: calc_angle_def sqdist_unfold
        csd_moved [OF assms(1,2)] csd_moved [OF assms(1,3)] assms(2,3) twice_mat_vec
        dot_mat_vec [OF assms(1)] Let_def del: One_nat_def)

lemma dihedral_locals_moved:
  assumes "is_rotation R"
    and "subtract_min_image_vectors (ids2 (ids 3) (ids 0)) ps' half
           = mat_vec R (subtract_min_image_vectors (ids2 (ids 3) (ids 0)) ps half)"
    and "subtract_min_image_vectors (ids2 (ids 3) (ids 2)) ps' half
           = mat_vec R (subtract_min_image_vectors (ids2 (ids 3) (ids 2)) ps half)"
    and "subtract_min_image_vectors (ids2 (ids 2) (ids 1)) ps' half
           = mat_vec R (subtract_min_image_vectors (ids2 (ids 2) (ids 1)) ps half)"
  shows "dihedral_locals_of eps ids ps' half
     = (dihedral_locals_of eps ids ps half)
         \<lparr>disp03 := mat_vec R (disp03 (dihedral_locals_of eps ids ps half)),
          disp23 := mat_vec R (disp23 (dihedral_locals_of eps ids ps half)),
          disp12 := mat_vec R (disp12 (dihedral_locals_of eps ids ps half)),
          pb := mat_vec R (pb (dihedral_locals_of eps ids ps half)),
          pc := mat_vec R (pc (dihedral_locals_of eps ids ps half))\<rparr>"
  by (simp add: dihedral_locals_of_def assms(2,3,4) dot_mat_vec [OF assms(1)]
        cross_mat_vec [OF assms(1)] Let_def del: One_nat_def)

lemma calc_dihedral_moved:
  assumes "is_rotation R"
    and "subtract_min_image_vectors (ids2 (ids 3) (ids 0)) ps' half
           = mat_vec R (subtract_min_image_vectors (ids2 (ids 3) (ids 0)) ps half)"
    and "subtract_min_image_vectors (ids2 (ids 3) (ids 2)) ps' half
           = mat_vec R (subtract_min_image_vectors (ids2 (ids 3) (ids 2)) ps half)"
    and "subtract_min_image_vectors (ids2 (ids 2) (ids 1)) ps' half
           = mat_vec R (subtract_min_image_vectors (ids2 (ids 2) (ids 1)) ps half)"
  shows "calc_dihedral eps ids ps' half = calc_dihedral eps ids ps half"
  by (simp add: calc_dihedral_def dihedral_locals_moved [OF assms] dot_mat_vec [OF assms(1)]
        Let_def)

lemma dihedral_unfold:
  "conditionally_calc_dihedral_and_derivatives eps ids ps half cutoff2 g
     = (let D = dihedral_locals_of eps ids ps half;
            p = rrbc D * pb2 D;
            q = rrbc D * pc2 D;
            f = dot_product (disp03 D) (disp23 D) / dot_product (disp23 D) (disp23 D);
            h = 1 + dot_product (disp12 D) (disp23 D) / dot_product (disp23 D) (disp23 D)
        in (True,
            (if - dot_product (pb D) (disp12 D) * rpb1 D * rrbc D < 0
             then - arccos (dcos D) else arccos (dcos D)),
            g(0 := lin (1 / p) (pb D) 0 (pb D),
              1 := lin (- 1 / q) (pc D) 0 (pc D),
              2 := lin (- f / p) (pb D) (h / q) (pc D))))"
  by (simp add: conditionally_calc_dihedral_and_derivatives_def Let_def lin_def algebra_simps)

lemma dihedral_moved:
  assumes "is_rotation R"
    and "subtract_min_image_vectors (ids2 (ids 3) (ids 0)) ps' half
           = mat_vec R (subtract_min_image_vectors (ids2 (ids 3) (ids 0)) ps half)"
    and "subtract_min_image_vectors (ids2 (ids 3) (ids 2)) ps' half
           = mat_vec R (subtract_min_image_vectors (ids2 (ids 3) (ids 2)) ps half)"
    and "subtract_min_image_vectors (ids2 (ids 2) (ids 1)) ps' half
           = mat_vec R (subtract_min_image_vectors (ids2 (ids 2) (ids 1)) ps half)"
  shows "conditionally_calc_dihedral_and_derivatives eps ids ps' half cutoff2 derivs
     = (case conditionally_calc_dihedral_and_derivatives eps ids ps half cutoff2 derivs of
          (w, v, g) \<Rightarrow>
            (w, v, g(0 := mat_vec R (g 0), 1 := mat_vec R (g 1), 2 := mat_vec R (g 2))))"
  by (simp add: dihedral_unfold dihedral_locals_moved [OF assms] dot_mat_vec [OF assms(1)]
        mat_vec_lin Let_def fun_eq_iff)

lemma csd_translate:
  "calc_squared_distance ids (translate t ps) half = calc_squared_distance ids ps half"
  by (simp only: calc_squared_distance_def smiv_translate)

lemma sq_translate:
  "conditionally_calc_squared_distance_and_derivatives ids (translate t ps) half cutoff2 derivs
     = conditionally_calc_squared_distance_and_derivatives ids ps half cutoff2 derivs"
  by (simp only: conditionally_calc_squared_distance_and_derivatives_def smiv_translate)

lemma dihedral_locals_translate:
  "dihedral_locals_of eps ids (translate t ps) half = dihedral_locals_of eps ids ps half"
  by (simp only: dihedral_locals_of_def smiv_translate)

lemma translation_invariance:
  "calc_distance ids (translate t ps) half = calc_distance ids ps half"
  "conditionally_calc_distance_and_derivatives ids (translate t ps) half cutoff2 derivs
     = conditionally_calc_distance_and_derivatives ids ps half cutoff2 derivs"
  "conditionally_calc_angle_and_derivatives eps scratch_20 scratch_21 ids (translate t ps) half
       cutoff2 param_val derivs
     = conditionally_calc_angle_and_derivatives eps scratch_20 scratch_21 ids ps half
       cutoff2 param_val derivs"
  "calc_dihedral eps ids (translate t ps) half = calc_dihedral eps ids ps half"
  "conditionally_calc_dihedral_and_derivatives eps ids (translate t ps) half cutoff2 derivs
     = conditionally_calc_dihedral_and_derivatives eps ids ps half cutoff2 derivs"
  by (simp_all only: calc_distance_def conditionally_calc_distance_and_derivatives_def
        conditionally_calc_angle_and_derivatives_def calc_dihedral_def
        conditionally_calc_dihedral_and_derivatives_def csd_translate sq_translate
        dihedral_locals_translate)

lemma angle_translate:
  "conditionally_calc_angle_and_derivatives eps scratch_20' scratch_21' ids (translate t ps)
       half cutoff2 param_val derivs
     = conditionally_calc_angle_and_derivatives eps scratch_20 scratch_21 ids ps half
       cutoff2 param_val derivs"
proof -
  have "conditionally_calc_angle_and_derivatives eps scratch_20' scratch_21' ids
          (translate t ps) half cutoff2 param_val derivs
      = conditionally_calc_angle_and_derivatives eps scratch_20' scratch_21' ids ps half
          cutoff2 param_val derivs"
    by (rule translation_invariance(3))
  also have "\<dots> = conditionally_calc_angle_and_derivatives eps scratch_20 scratch_21 ids ps
          half cutoff2 param_val derivs"
    by (rule angle_scratch_free)
  finally show ?thesis .
qed

lemma calc_angle_translate:
  assumes "calc_squared_distance (ids2 (ids 2) (ids 0)) ps half \<le> maxfloat"
    and "calc_squared_distance (ids2 (ids 2) (ids 1)) ps half \<le> maxfloat"
  shows "calc_angle eps maxfloat scratch_20' scratch_21' ids (translate t ps) half
       = calc_angle eps maxfloat scratch_20 scratch_21 ids ps half"
proof -
  have "calc_angle eps maxfloat scratch_20' scratch_21' ids (translate t ps) half
      = calc_angle eps maxfloat scratch_20' scratch_21' ids ps half"
    by (simp only: calc_angle_def sq_translate)
  also have "\<dots> = calc_angle eps maxfloat scratch_20 scratch_21 ids ps half"
    using assms by (rule calc_angle_scratch_free)
  finally show ?thesis .
qed

lemma is_rotation_rot_z_34: "is_rotation rot_z_34"
  by (simp add: is_rotation_def rot_z_34_def dot_product_def cross_product_def)

lemma smiv_0_5_turned:
  "subtract_min_image_vectors (ids2 0 1) (rigid_motion rot_z_34 (Vec3 0 0 0) pos_0_5) (Vec3 3 3 3)
     = Vec3 3 (- 2) 0"
  by (simp add: subtract_min_image_vectors_def min_image_component_def ids2_def pos_0_5_def
        rigid_motion_def mat_vec_def rot_z_34_def)

lemma unwrapped_quarter_turn:
  "unwrapped (ids2 (int a) (int b)) pos_quarter_turn (Vec3 10 10 10)"
  "unwrapped (ids2 (int a) (int b)) (rigid_motion rot_z_34 (Vec3 1 2 3) pos_quarter_turn)
     (Vec3 10 10 10)"
  "unwrapped int pos_quarter_turn (Vec3 10 10 10)"
  "unwrapped int (rigid_motion rot_z_34 (Vec3 1 2 3) pos_quarter_turn) (Vec3 10 10 10)"
  by (simp_all add: unwrapped_def ids2_def pos_quarter_turn_def rigid_motion_def mat_vec_def
        rot_z_34_def)

lemma csd_quarter_turn_small:
  "calc_squared_distance (ids2 (int 2) (int 0)) pos_quarter_turn (Vec3 10 10 10)
     \<le> 10000000000"
  "calc_squared_distance (ids2 (int 2) (int 1)) pos_quarter_turn (Vec3 10 10 10)
     \<le> 10000000000"
  by (simp_all add: calc_squared_distance_eq subtract_min_image_vectors_def
        min_image_component_def ids2_def pos_quarter_turn_def)

text \<open>
  The claim C9 as it is written fails: the wrapping step is done axis by axis in the frame
  of the box, and a rotation does not commute with it. Particles at \<open>(0,0,0)\<close> and
  \<open>(5,0,0)\<close> in a box of half-lengths \<open>(3,3,3)\<close> are at distance 1; after the rotation
  \<open>rot_z_34\<close> about the origin the second one is at \<open>(3,4,0)\<close> and the distance is
  \<open>sqrt 13\<close>.
\<close>

theorem rotation_with_wrapping_counterexample:
  "is_rotation rot_z_34
   \<and> calc_distance (ids2 0 1) pos_0_5 (Vec3 3 3 3) = 1
   \<and> calc_distance (ids2 0 1) (rigid_motion rot_z_34 (Vec3 0 0 0) pos_0_5) (Vec3 3 3 3) = sqrt 13
   \<and> calc_distance (ids2 0 1) (rigid_motion rot_z_34 (Vec3 0 0 0) pos_0_5) (Vec3 3 3 3)
       \<noteq> calc_distance (ids2 0 1) pos_0_5 (Vec3 3 3 3)"
proof -
  have a: "calc_distance (ids2 0 1) pos_0_5 (Vec3 3 3 3) = 1"
    by (simp add: calc_distance_def csd_0_5)
  have b: "calc_distance (ids2 0 1) (rigid_motion rot_z_34 (Vec3 0 0 0) pos_0_5) (Vec3 3 3 3)
      = sqrt 13"
    by (simp add: calc_distance_def calc_squared_distance_eq smiv_0_5_turned)
  have c: "sqrt 13 \<noteq> 1" by simp
  from is_rotation_rot_z_34 a b c show ?thesis by simp
qed

text \<open>
  C9, amended. A translation of all positions leaves the value and the gradients of the
  distance and dihedral operations and of \<open>conditionally_calc_angle_and_derivatives\<close>
  unchanged on every input, the wrapping step included. A rotation followed by a
  translation leaves these values unchanged and rotates the gradients whenever every pair
  whose displacement the operation forms is unwrapped before and after the motion. For
  \<open>calc_angle\<close> both statements are for squared vertex distances of at most \<open>MAXFLOAT\<close>:
  beyond it the function reads its two arrays as \<open>new\<close> returned them. The two calls of
  an angle function that are compared have their own scratch arrays (\<open>scratch_20'\<close> and
  \<open>scratch_21'\<close> for the moved configuration).
\<close>

theorem rigid_motion_invariance:
  assumes "is_rotation R"
  shows
   "(calc_distance ids (translate t ps) half = calc_distance ids ps half
     \<and> conditionally_calc_distance_and_derivatives ids (translate t ps) half cutoff2 derivs
         = conditionally_calc_distance_and_derivatives ids ps half cutoff2 derivs
     \<and> conditionally_calc_angle_and_derivatives eps scratch_20' scratch_21' ids (translate t ps)
           half cutoff2 param_val derivs
         = conditionally_calc_angle_and_derivatives eps scratch_20 scratch_21 ids ps half
           cutoff2 param_val derivs
     \<and> calc_dihedral eps ids (translate t ps) half = calc_dihedral eps ids ps half
     \<and> conditionally_calc_dihedral_and_derivatives eps ids (translate t ps) half cutoff2 derivs
         = conditionally_calc_dihedral_and_derivatives eps ids ps half cutoff2 derivs)
  \<and> (calc_squared_distance (ids2 (ids 2) (ids 0)) ps half \<le> maxfloat
      \<and> calc_squared_distance (ids2 (ids 2) (ids 1)) ps half \<le> maxfloat \<longrightarrow>
        calc_angle eps maxfloat scratch_20' scratch_21' ids (translate t ps) half
          = calc_angle eps maxfloat scratch_20 scratch_21 ids ps half)
  \<and> (unwrapped ids ps half \<and> unwrapped ids (rigid_motion R t ps) half \<longrightarrow>
        calc_distance ids (rigid_motion R t ps) half = calc_distance ids ps half
      \<and> conditionally_calc_distance_and_derivatives ids (rigid_motion R t ps) half cutoff2 derivs
          = (case conditionally_calc_distance_and_derivatives ids ps half cutoff2 derivs of
               (w, v, g) \<Rightarrow> (w, v, if w then g(0 := mat_vec R (g 0)) else g)))
  \<and> (unwrapped (ids2 (ids 2) (ids 0)) ps half \<and> unwrapped (ids2 (ids 2) (ids 1)) ps half
      \<and> unwrapped (ids2 (ids 2) (ids 0)) (rigid_motion R t ps) half
      \<and> unwrapped (ids2 (ids 2) (ids 1)) (rigid_motion R t ps) half \<longrightarrow>
        conditionally_calc_angle_and_derivatives eps scratch_20' scratch_21' ids
            (rigid_motion R t ps) half cutoff2 param_val derivs
          = (case conditionally_calc_angle_and_derivatives eps scratch_20 scratch_21 ids ps half
                    cutoff2 param_val derivs of
               (w, v, g) \<Rightarrow>
                 (w, v, if w then g(0 := mat_vec R (g 0), 1 := mat_vec R (g 1)) else g))
      \<and> (calc_squared_distance (ids2 (ids 2) (ids 0)) ps half \<le> maxfloat
          \<and> calc_squared_distance (ids2 (ids 2) (ids 1)) ps half \<le> maxfloat \<longrightarrow>
            calc_angle eps maxfloat scratch_20' scratch_21' ids (rigid_motion R t ps) half
              = calc_angle eps maxfloat scratch_20 scratch_21 ids ps half))
  \<and> (unwrapped (ids2 (ids 3) (ids 0)) ps half \<and> unwrapped (ids2 (ids 3) (ids 2)) ps half
      \<and> unwrapped (ids2 (ids 2) (ids 1)) ps half
      \<and> unwrapped (ids2 (ids 3) (ids 0)) (rigid_motion R t ps) half
      \<and> unwrapped (ids2 (ids 3) (ids 2)) (rigid_motion R t ps) half
      \<and> unwrapped (ids2 (ids 2) (ids 1)) (rigid_motion R t ps) half \<longrightarrow>
        calc_dihedral eps ids (rigid_motion R t ps) half = calc_dihedral eps ids ps half
      \<and> conditionally_calc_dihedral_and_derivatives eps ids (rigid_motion R t ps) half
            cutoff2 derivs
          = (case conditionally_calc_dihedral_and_derivatives eps ids ps half cutoff2 derivs of
               (w, v, g) \<Rightarrow>
                 (w, v, g(0 := mat_vec R (g 0), 1 := mat_vec R (g 1), 2 := mat_vec R (g 2)))))"
  (is "?T \<and> ?TA \<and> ?D \<and> ?A \<and> ?H")
proof -
  have T: ?T
    by (intro conjI) (rule translation_invariance angle_translate)+
  have TA: ?TA
    using calc_angle_translate by blast
  have D: ?D
  proof (intro impI, elim conjE)
    assume u: "unwrapped ids ps half" "unwrapped ids (rigid_motion R t ps) half"
    note m = smiv_rigid_motion [OF u]
    have "calc_distance ids (rigid_motion R t ps) half = calc_distance ids ps half"
      by (simp add: calc_distance_def csd_moved [OF assms m])
    with dist_moved [OF assms m]
    show "calc_distance ids (rigid_motion R t ps) half = calc_distance ids ps half
      \<and> conditionally_calc_distance_and_derivatives ids (rigid_motion R t ps) half cutoff2 derivs
          = (case conditionally_calc_distance_and_derivatives ids ps half cutoff2 derivs of
               (w, v, g) \<Rightarrow> (w, v, if w then g(0 := mat_vec R (g 0)) else g))"
      by blast
  qed
  have A: ?A
  proof (intro impI, elim conjE)
    assume u: "unwrapped (ids2 (ids 2) (ids 0)) ps half"
      "unwrapped (ids2 (ids 2) (ids 1)) ps half"
      "unwrapped (ids2 (ids 2) (ids 0)) (rigid_motion R t ps) half"
      "unwrapped (ids2 (ids 2) (ids 1)) (rigid_motion R t ps) half"
    note m0 = smiv_rigid_motion [OF u(1,3)]
    note m1 = smiv_rigid_motion [OF u(2,4)]
    from angle_moved [OF assms m0 m1] calc_angle_moved [OF assms m0 m1]
    show "conditionally_calc_angle_and_derivatives eps scratch_20' scratch_21' ids
            (rigid_motion R t ps) half cutoff2 param_val derivs
          = (case conditionally_calc_angle_and_derivatives eps scratch_20 scratch_21 ids ps half
                    cutoff2 param_val derivs of
               (w, v, g) \<Rightarrow>
                 (w, v, if w then g(0 := mat_vec R (g 0), 1 := mat_vec R (g 1)) else g))
      \<and> (calc_squared_distance (ids2 (ids 2) (ids 0)) ps half \<le> maxfloat
          \<and> calc_squared_distance (ids2 (ids 2) (ids 1)) ps half \<le> maxfloat \<longrightarrow>
            calc_angle eps maxfloat scratch_20' scratch_21' ids (rigid_motion R t ps) half
              = calc_angle eps maxfloat scratch_20 scratch_21 ids ps half)"
      by blast
  qed
  have H: ?H
  proof (intro impI, elim conjE)
    assume u: "unwrapped (ids2 (ids 3) (ids 0)) ps half"
      "unwrapped (ids2 (ids 3) (ids 2)) ps half"
      "unwrapped (ids2 (ids 2) (ids 1)) ps half"
      "unwrapped (ids2 (ids 3) (ids 0)) (rigid_motion R t ps) half"
      "unwrapped (ids2 (ids 3) (ids 2)) (rigid_motion R t ps) half"
      "unwrapped (ids2 (ids 2) (ids 1)) (rigid_motion R t ps) half"
    note m0 = smiv_rigid_motion [OF u(1,4)]
    note m1 = smiv_rigid_motion [OF u(2,5)]
    note m2 = smiv_rigid_motion [OF u(3,6)]
    from calc_dihedral_moved [OF assms m0 m1 m2] dihedral_moved [OF assms m0 m1 m2]
    show "calc_dihedral eps ids (rigid_motion R t ps) half = calc_dihedral eps ids ps half
      \<and> conditionally_calc_dihedral_and_derivatives eps ids (rigid_motion R t ps) half
            cutoff2 derivs
          = (case conditionally_calc_dihedral_and_derivatives eps ids ps half cutoff2 derivs of
               (w, v, g) \<Rightarrow>
                 (w, v, g(0 := mat_vec R (g 0), 1 := mat_vec R (g 1), 2 := mat_vec R (g 2))))"
      by blast
  qed
  from T TA D A H show ?thesis by blast
qed

theorem rigid_motion_invariance_witness:
  "is_rotation rot_z_34
   \<and> unwrapped int pos_quarter_turn (Vec3 10 10 10)
   \<and> unwrapped int (rigid_motion rot_z_34 (Vec3 1 2 3) pos_quarter_turn) (Vec3 10 10 10)
   \<and> unwrapped (ids2 (int 2) (int 0)) pos_quarter_turn (Vec3 10 10 10)
   \<and> unwrapped (ids2 (int 2) (int 1)) pos_quarter_turn (Vec3 10 10 10)
   \<and> unwrapped (ids2 (int 3) (int 0)) pos_quarter_turn (Vec3 10 10 10)
   \<and> unwrapped (ids2 (int 3) (int 2)) pos_quarter_turn (Vec3 10 10 10)
   \<and> unwrapped (ids2 (int 2) (int 0)) (rigid_motion rot_z_34 (Vec3 1 2 3) pos_quarter_turn)
         (Vec3 10 10 10)
   \<and> unwrapped (ids2 (int 2) (int 1)) (rigid_motion rot_z_34 (Vec3 1 2 3) pos_quarter_turn)
         (Vec3 10 10 10)
   \<and> unwrapped (ids2 (int 3) (int 0)) (rigid_motion rot_z_34 (Vec3 1 2 3) pos_quarter_turn)
         (Vec3 10 10 10)
   \<and> unwrapped (ids2 (int 3) (int 2)) (rigid_motion rot_z_34 (Vec3 1 2 3) pos_quarter_turn)
         (Vec3 10 10 10)
   \<and> calc_squared_distance (ids2 (int 2) (int 0)) pos_quarter_turn (Vec3 10 10 10)
        \<le> 10000000000
   \<and> calc_squared_distance (ids2 (int 2) (int 1)) pos_quarter_turn (Vec3 10 10 10)
        \<le> 10000000000
   \<and> calc_distance int (rigid_motion rot_z_34 (Vec3 1 2 3) pos_quarter_turn) (Vec3 10 10 10)
       = calc_distance int pos_quarter_turn (Vec3 10 10 10)
   \<and> calc_angle (1/1000000) 10000000000 (\<lambda>_. Vec3 1 2 3) (\<lambda>_. Vec3 4 5 6) int
         (translate (Vec3 1 2 3) pos_quarter_turn) (Vec3 10 10 10)
       = calc_angle (1/1000000) 10000000000 (\<lambda>_. Vec3 7 7 7) (\<lambda>_. Vec3 8 8 8) int
           pos_quarter_turn (Vec3 10 10 10)
   \<and> calc_angle (1/1000000) 10000000000 (\<lambda>_. Vec3 1 2 3) (\<lambda>_. Vec3 4 5 6) int
         (rigid_motion rot_z_34 (Vec3 1 2 3) pos_quarter_turn) (Vec3 10 10 10)
       = calc_angle (1/1000000) 10000000000 (\<lambda>_. Vec3 7 7 7) (\<lambda>_. Vec3 8 8 8) int
           pos_quarter_turn (Vec3 10 10 10)
   \<and> calc_dihedral (1/1000000) int (rigid_motion rot_z_34 (Vec3 1 2 3) pos_quarter_turn)
         (Vec3 10 10 10)
       = calc_dihedral (1/1000000) int pos_quarter_turn (Vec3 10 10 10)"
  using rigid_motion_invariance [OF is_rotation_rot_z_34, where ids = int
          and t = "Vec3 1 2 3" and ps = pos_quarter_turn and half = "Vec3 10 10 10"
          and eps = "1/1000000" and maxfloat = 10000000000
          and ?scratch_20.0 = "\<lambda>_. Vec3 7 7 7" and ?scratch_21.0 = "\<lambda>_. Vec3 8 8 8"
          and scratch_20' = "\<lambda>_. Vec3 1 2 3" and scratch_21' = "\<lambda>_. Vec3 4 5 6"]
    is_rotation_rot_z_34 unwrapped_quarter_turn csd_quarter_turn_small
  by blast

end
